theory Spec2Isabelle
  imports Main "HOL-Library.Word"
begin

section \<open>Pod snapshots\<close>

text \<open>
  The fields of the Kubernetes API objects that \<^verbatim>\<open>pkg/devspace/kubectl/util.go\<close> reads.
  A pointer field that may be nil is an \<open>option\<close>; \<^verbatim>\<open>int32\<close> is \<open>32 word\<close>;
  a \<^verbatim>\<open>time.Time\<close> is an instant on the integer time line; \<^verbatim>\<open>time.Duration\<close>
  is a signed 64-bit count of nanoseconds.
\<close>

type_synonym int32 = "32 word"
type_synonym Duration = "64 word"
type_synonym Time = int

record ContainerStateWaiting =
  Waiting_Reason :: string

record ContainerStateRunning =
  StartedAt :: Time

record ContainerStateTerminated =
  ExitCode :: int32
  Signal :: int32
  Terminated_Reason :: string

record ContainerState =
  Waiting :: "ContainerStateWaiting option"
  Running :: "ContainerStateRunning option"
  Terminated :: "ContainerStateTerminated option"

record ContainerStatus =
  State :: ContainerState
  Ready :: bool

record Container =
  Image :: string

record Pod =
  Name :: string
  CreationTimestamp :: Time
  DeletionTimestamp :: "Time option"
  Spec_InitContainers :: "Container list"
  Spec_Containers :: "Container list"
  Status_Phase :: string
  Status_Reason :: string
  Status_InitContainerStatuses :: "ContainerStatus list"
  Status_ContainerStatuses :: "ContainerStatus list"

section \<open>Formatting\<close>

text \<open>The verb \<^verbatim>\<open>%d\<close> of \<^verbatim>\<open>fmt.Sprintf\<close>: a signed decimal numeral.\<close>

definition digit :: "nat \<Rightarrow> char" where
  "digit n = ''0123456789'' ! n"

fun decimal :: "nat \<Rightarrow> string" where
  "decimal n = (if n < 10 then [digit n] else decimal (n div 10) @ [digit (n mod 10)])"

declare decimal.simps [simp del]

definition Sprintf_d :: "int \<Rightarrow> string" where
  "Sprintf_d i = (if i < 0 then CHR ''-'' # decimal (nat (- i)) else decimal (nat i))"

text \<open>\<^verbatim>\<open>strings.Join\<close>.\<close>

fun Join :: "string list \<Rightarrow> string \<Rightarrow> string" where
  "Join [] sep = []"
| "Join [x] sep = x"
| "Join (x # y # ys) sep = x @ sep @ Join (y # ys) sep"

section \<open>GetPodStatus\<close>

text \<open>
  The constant \<^verbatim>\<open>node.NodeUnreachablePodReason\<close> of \<^verbatim>\<open>k8s.io/kubernetes/pkg/util/node\<close>.
\<close>

definition NodeUnreachablePodReason :: string where
  "NodeUnreachablePodReason = ''NodeLost''"

text \<open>
  The loop over \<^verbatim>\<open>pod.Status.InitContainerStatuses\<close>. Its body ends in \<^verbatim>\<open>break\<close>, which
  only the \<^verbatim>\<open>continue\<close> of the first case (terminated with exit code 0) skips: the scan
  stops at the first init container that has not terminated successfully. The result is
  the pair of \<^verbatim>\<open>reason\<close> and \<^verbatim>\<open>initializing\<close>.
\<close>

definition initDefault :: "Pod \<Rightarrow> nat \<Rightarrow> string" where
  "initDefault pod i =
     ''Init:'' @ Sprintf_d (int i) @ ''/'' @ Sprintf_d (int (length (Spec_InitContainers pod)))"

fun initLoop :: "Pod \<Rightarrow> nat \<Rightarrow> ContainerStatus list \<Rightarrow> string \<Rightarrow> string \<times> bool" where
  "initLoop pod i [] reason = (reason, False)"
| "initLoop pod i (container # rest) reason =
     (case Terminated (State container) of
        Some t \<Rightarrow>
          if ExitCode t = 0 then initLoop pod (i + 1) rest reason
          else if length (Terminated_Reason t) = 0 then
            (if Signal t \<noteq> 0 then (''Init:Signal:'' @ Sprintf_d (sint (Signal t)), True)
             else (''Init:ExitCode:'' @ Sprintf_d (sint (ExitCode t)), True))
          else (''Init:'' @ Terminated_Reason t, True)
      | None \<Rightarrow>
          (case Waiting (State container) of
             Some w \<Rightarrow>
               if length (Waiting_Reason w) > 0 \<and> Waiting_Reason w \<noteq> ''PodInitializing''
               then (''Init:'' @ Waiting_Reason w, True)
               else (initDefault pod i, True)
           | None \<Rightarrow> (initDefault pod i, True)))"

text \<open>
  One pass of the body of the loop over \<^verbatim>\<open>pod.Status.ContainerStatuses\<close>, on the pair of
  \<^verbatim>\<open>reason\<close> and \<^verbatim>\<open>hasRunning\<close>. \<open>elseTerminated\<close> is the part of the chain after the
  first \<^verbatim>\<open>if\<close>.
\<close>

definition elseTerminated :: "ContainerStatus \<Rightarrow> string \<times> bool \<Rightarrow> string \<times> bool" where
  "elseTerminated container acc =
     (case Terminated (State container) of
        Some t \<Rightarrow>
          if Terminated_Reason t \<noteq> '''' then (Terminated_Reason t, snd acc)
          else if Signal t \<noteq> 0 then (''Signal:'' @ Sprintf_d (sint (Signal t)), snd acc)
          else (''ExitCode:'' @ Sprintf_d (sint (ExitCode t)), snd acc)
      | None \<Rightarrow>
          if Ready container \<and> Running (State container) \<noteq> None then (fst acc, True)
          else acc)"

definition containerStep :: "ContainerStatus \<Rightarrow> string \<times> bool \<Rightarrow> string \<times> bool" where
  "containerStep container acc =
     (case Waiting (State container) of
        Some w \<Rightarrow>
          if Waiting_Reason w \<noteq> '''' then (Waiting_Reason w, snd acc)
          else elseTerminated container acc
      | None \<Rightarrow> elseTerminated container acc)"

text \<open>
  The loop \<^verbatim>\<open>for i := len(statuses) - 1; i >= 0; i--\<close>: \<open>containerLoop\<close> walks the
  statuses in the order it is given them, and \<open>GetPodStatus\<close> gives it the reversed list.
\<close>

fun containerLoop :: "ContainerStatus list \<Rightarrow> string \<times> bool \<Rightarrow> string \<times> bool" where
  "containerLoop [] acc = acc"
| "containerLoop (container # rest) acc = containerLoop rest (containerStep container acc)"

definition GetPodStatus :: "Pod \<Rightarrow> string" where
  "GetPodStatus pod =
     (let reason = Status_Phase pod;
          reason = (if Status_Reason pod \<noteq> '''' then Status_Reason pod else reason);
          (reason, initializing) = initLoop pod 0 (Status_InitContainerStatuses pod) reason;
          reason =
            (if \<not> initializing then
               (let (reason, hasRunning) =
                      containerLoop (rev (Status_ContainerStatuses pod)) (reason, False)
                in if reason = ''Completed'' \<and> hasRunning then ''Running'' else reason)
             else reason)
      in if DeletionTimestamp pod \<noteq> None \<and> Status_Reason pod = NodeUnreachablePodReason
         then ''Unknown''
         else if DeletionTimestamp pod \<noteq> None then ''Terminating''
         else reason)"

section \<open>The API server and the clock\<close>

text \<open>
  An error is either the one a call of the API client returned, which the loops pass on
  unchanged, or one made here by \<^verbatim>\<open>errors.Errorf\<close>, which is its message.
\<close>

datatype error = ClientError string | Errorf string

text \<open>
  The discovery loops talk to the outside through three calls: \<^verbatim>\<open>time.Sleep\<close>, the
  \<^verbatim>\<open>List\<close> call of the pod client and \<^verbatim>\<open>time.Since\<close>. The cluster and the clock are
  not under the program's control, so they are parameters: \<open>Pods_List w i ns sel\<close> is the
  answer to the \<open>i\<close>-th \<^verbatim>\<open>List\<close> call of one run (counted from 0), made for namespace
  \<open>ns\<close> and label selector \<open>sel\<close>; \<open>Since w i\<close> is what \<^verbatim>\<open>time.Since(now)\<close> gives
  in iteration \<open>i\<close>. An answer \<open>Inl e\<close> is the client's error \<open>e\<close>. Each loop returns, with
  its result, the calls it made in order: an iteration that returns has slept once and
  listed once, one that goes on has slept a second time.
\<close>

record World =
  Pods_List :: "nat \<Rightarrow> string \<Rightarrow> string \<Rightarrow> string + Pod list"
  Since :: "nat \<Rightarrow> Duration"

record Client =
  Namespace :: string

datatype event = Sleep Duration | ListPods string string

definition Second :: Duration where
  "Second = 1000000000"

definition Minute :: Duration where
  "Minute = 60 * Second"

definition waitingInterval :: Duration where
  "waitingInterval = 1 * Second"

definition returningCalls :: "string \<Rightarrow> string \<Rightarrow> event list" where
  "returningCalls namespace labelSelector =
     [Sleep waitingInterval, ListPods namespace labelSelector]"

definition iterationCalls :: "string \<Rightarrow> string \<Rightarrow> event list" where
  "iterationCalls namespace labelSelector =
     [Sleep waitingInterval, ListPods namespace labelSelector, Sleep waitingInterval]"

text \<open>Both functions begin by replacing an empty namespace by the client's.\<close>

definition namespaceUsed :: "Client \<Rightarrow> string \<Rightarrow> string" where
  "namespaceUsed client namespace = (if namespace = [] then Namespace client else namespace)"

definition CriticalStatus :: "string \<Rightarrow> bool" where
  "CriticalStatus s =
     (s = ''Error'' \<or> s = ''Unknown'' \<or> s = ''ImagePullBackOff'' \<or> s = ''CrashLoopBackOff''
      \<or> s = ''RunContainerError'' \<or> s = ''ErrImagePull''
      \<or> s = ''CreateContainerConfigError'' \<or> s = ''InvalidImageName'')"

text \<open>
  The two innermost loops of both functions: is the image of some declared container of
  the pod one of the given names?
\<close>

definition imageMatches :: "string list \<Rightarrow> Container \<Rightarrow> bool" where
  "imageMatches imageNames container =
     list_ex (\<lambda>imageName. imageName = Image container) imageNames"

definition hasImage :: "string list \<Rightarrow> Pod \<Rightarrow> bool" where
  "hasImage imageNames pod = list_ex (imageMatches imageNames) (Spec_Containers pod)"

section \<open>GetRunningPodsWithImage\<close>

definition cannotStart :: "string \<Rightarrow> string \<Rightarrow> error" where
  "cannotStart name podStatus =
     Errorf (''Pod '' @ [CHR 0x27] @ name @ [CHR 0x27] @ '' cannot start (Status: ''
             @ podStatus @ '')'')"

definition timedOut :: "string list \<Rightarrow> string \<Rightarrow> error" where
  "timedOut imageNames namespace =
     Errorf (''Waiting for pods with image names '' @ [CHR 0x27] @ Join imageNames '',''
             @ [CHR 0x27] @ '' in namespace '' @ namespace @ '' timed out'')"

text \<open>
  \<^verbatim>\<open>PodLoop\<close>: the first matching container of a pod decides for the pod, by the pod's
  status. \<open>Inl\<close> is the \<^verbatim>\<open>return nil, err\<close> inside the loop; \<open>Inr (wait, pods)\<close> is the
  state the loop is left with.
\<close>

fun PodLoop :: "string list \<Rightarrow> Pod list \<Rightarrow> Pod list \<Rightarrow> error + bool \<times> Pod list" where
  "PodLoop imageNames [] pods = Inr (False, pods)"
| "PodLoop imageNames (currentPod # items) pods =
     (let podStatus = GetPodStatus currentPod
      in if hasImage imageNames currentPod then
           if CriticalStatus podStatus then Inl (cannotStart (Name currentPod) podStatus)
           else if podStatus = ''Completed'' then PodLoop imageNames items pods
           else if podStatus \<noteq> ''Running'' then Inr (True, pods)
           else PodLoop imageNames items (pods @ [currentPod])
         else PodLoop imageNames items pods)"

text \<open>
  What one iteration does with the listed pods: \<open>Some\<close> is a \<^verbatim>\<open>return\<close>, \<open>None\<close> falls
  through to the second sleep.
\<close>

definition evaluatePods :: "string list \<Rightarrow> Duration \<Rightarrow> Pod list \<Rightarrow> (error + Pod list) option" where
  "evaluatePods imageNames minWait items =
     (if length items > 0 then
        (case PodLoop imageNames items [] of
           Inl err \<Rightarrow> Some (Inl err)
         | Inr (wait, pods) \<Rightarrow>
             if wait = False then
               (if length pods > 0 \<or> sint minWait \<le> 0 then Some (Inr pods) else None)
             else None)
      else None)"

text \<open>
  The loop \<^verbatim>\<open>for maxWaiting >= 0\<close>, with the index \<open>i\<close> of the iteration. The budget is a
  signed 64-bit word and is compared as such.
\<close>

function imageLoop ::
  "World \<Rightarrow> string list \<Rightarrow> string \<Rightarrow> Duration \<Rightarrow> Duration \<Rightarrow> nat
     \<Rightarrow> (error + Pod list) \<times> event list" where
  "imageLoop w imageNames namespace maxWaiting minWait i =
     (if 0 \<le> sint maxWaiting then
        (case Pods_List w i namespace [] of
           Inl err \<Rightarrow> (Inl (ClientError err), returningCalls namespace [])
         | Inr items \<Rightarrow>
             (case evaluatePods imageNames minWait items of
                Some result \<Rightarrow> (result, returningCalls namespace [])
              | None \<Rightarrow>
                  (let (result, calls) =
                         imageLoop w imageNames namespace (maxWaiting - waitingInterval * 2)
                           (minWait - waitingInterval * 2) (i + 1)
                   in (result, iterationCalls namespace [] @ calls))))
      else (Inl (timedOut imageNames namespace), []))"
  by pat_completeness auto
termination
proof (relation "measure (\<lambda>(w, imageNames, namespace, maxWaiting, minWait, i).
                            nat (sint maxWaiting + 1))")
  fix w :: World and imageNames :: "string list" and namespace :: string
    and maxWaiting minWait :: Duration and i :: nat
  assume nonneg: "0 \<le> sint maxWaiting"
  have "sint maxWaiting < 2 ^ 63"
    using sint_lt [of maxWaiting] by simp
  with nonneg have "signed_take_bit 63 (sint maxWaiting - 2000000000) = sint maxWaiting - 2000000000"
    by (intro signed_take_bit_int_eq_self) simp_all
  then have "sint (maxWaiting - waitingInterval * 2) = sint maxWaiting - 2000000000"
    by (simp add: sint_word_ariths waitingInterval_def Second_def)
  with nonneg
  show "((w, imageNames, namespace, maxWaiting - waitingInterval * 2,
          minWait - waitingInterval * 2, i + 1),
         (w, imageNames, namespace, maxWaiting, minWait, i))
        \<in> measure (\<lambda>(w, imageNames, namespace, maxWaiting, minWait, i).
                      nat (sint maxWaiting + 1))"
    by simp
qed simp

definition GetRunningPodsWithImage ::
  "Client \<Rightarrow> World \<Rightarrow> string list \<Rightarrow> string \<Rightarrow> Duration
     \<Rightarrow> (error + Pod list) \<times> event list" where
  "GetRunningPodsWithImage client w imageNames namespace maxWaiting =
     (let namespace = namespaceUsed client namespace;
          minWait = 60 * Second
      in imageLoop w imageNames namespace maxWaiting minWait 0)"

section \<open>GetNewestRunningPod\<close>

definition couldntFind :: "string \<Rightarrow> string \<Rightarrow> error" where
  "couldntFind labelSelector namespace =
     Errorf (''Couldn't find a pod with selector '' @ labelSelector @ '' in namespace ''
             @ namespace)"

definition noPodFound :: "string \<Rightarrow> string \<Rightarrow> error" where
  "noPodFound labelSelector namespace =
     Errorf (''No pod with selector '' @ labelSelector @ '' in namespace '' @ namespace
             @ '' found'')"

definition selectedCannotStart :: "string \<Rightarrow> error" where
  "selectedCannotStart podStatus =
     Errorf (''Selected Pod(s) cannot start (Status: '' @ podStatus @ '')'')"

text \<open>
  The loop that picks \<^verbatim>\<open>selectedPod\<close>: a pod replaces the selection when nothing is
  selected yet or it was created strictly after the selected pod, and then only if it
  passes the image selector (an empty selector lets every pod pass).
\<close>

fun selectLoop :: "string list \<Rightarrow> Pod list \<Rightarrow> Pod option \<Rightarrow> Pod option" where
  "selectLoop imageSelector [] selectedPod = selectedPod"
| "selectLoop imageSelector (currentPod # items) selectedPod =
     selectLoop imageSelector items
       (if (case selectedPod of
              None \<Rightarrow> True
            | Some selected \<Rightarrow> CreationTimestamp currentPod > CreationTimestamp selected)
        then
          (if length imageSelector > 0 then
             (if hasImage imageSelector currentPod then Some currentPod else selectedPod)
           else Some currentPod)
        else selectedPod)"

text \<open>
  What one iteration does with the listed pods and the time elapsed since the loop began.
  \<^verbatim>\<open>podList.Size()\<close> is the encoded size of the list, positive whenever the list has an
  item, so the guard is the test on \<^verbatim>\<open>len(podList.Items)\<close>.
\<close>

definition evaluateNewest ::
  "string \<Rightarrow> string list \<Rightarrow> string \<Rightarrow> Duration \<Rightarrow> Pod list \<Rightarrow> (error + Pod) option" where
  "evaluateNewest labelSelector imageSelector namespace elapsed items =
     (if length items > 0 then
        (case selectLoop imageSelector items None of
           Some selectedPod \<Rightarrow>
             (let podStatus = GetPodStatus selectedPod
              in if podStatus = ''Running'' then Some (Inr selectedPod)
                 else if podStatus = ''Error'' \<or> podStatus = ''Unknown''
                         \<or> podStatus = ''ImagePullBackOff'' \<or> podStatus = ''CrashLoopBackOff''
                         \<or> podStatus = ''RunContainerError'' \<or> podStatus = ''ErrImagePull''
                         \<or> podStatus = ''CreateContainerConfigError''
                         \<or> podStatus = ''InvalidImageName''
                 then Some (Inl (selectedCannotStart podStatus))
                 else None)
         | None \<Rightarrow>
             if sint elapsed > sint Minute then Some (Inl (couldntFind labelSelector namespace))
             else None)
      else None)"

text \<open>
  The loop \<^verbatim>\<open>for ok := true; ok; ok = maxWaiting > 0\<close>: the body runs once whatever the
  budget is, and the budget is tested after it has been decremented.
\<close>

function newestLoop ::
  "World \<Rightarrow> string \<Rightarrow> string list \<Rightarrow> string \<Rightarrow> Duration \<Rightarrow> nat
     \<Rightarrow> (error + Pod) \<times> event list" where
  "newestLoop w labelSelector imageSelector namespace maxWaiting i =
     (case Pods_List w i namespace labelSelector of
        Inl err \<Rightarrow> (Inl (ClientError err), returningCalls namespace labelSelector)
      | Inr items \<Rightarrow>
          (case evaluateNewest labelSelector imageSelector namespace (Since w i) items of
             Some result \<Rightarrow> (result, returningCalls namespace labelSelector)
           | None \<Rightarrow>
               (if 0 < sint (maxWaiting - waitingInterval * 2) then
                  (let (result, calls) =
                         newestLoop w labelSelector imageSelector namespace
                           (maxWaiting - waitingInterval * 2) (i + 1)
                   in (result, iterationCalls namespace labelSelector @ calls))
                else (Inl (noPodFound labelSelector namespace),
                      iterationCalls namespace labelSelector))))"
  by pat_completeness auto
termination
proof (relation "measure (\<lambda>(w, labelSelector, imageSelector, namespace, maxWaiting, i).
                            if 0 < sint maxWaiting then nat (sint maxWaiting)
                            else 9223372036854775808)")
  fix w :: World and labelSelector namespace :: string and imageSelector :: "string list"
    and maxWaiting :: Duration and i :: nat
  assume pos: "0 < sint (maxWaiting - waitingInterval * 2)"
  have upper: "sint (maxWaiting - waitingInterval * 2) < 9223372036854775808"
    using sint_lt [of "maxWaiting - waitingInterval * 2"] by simp
  have "0 < sint maxWaiting \<Longrightarrow>
          sint (maxWaiting - waitingInterval * 2) = sint maxWaiting - 2000000000"
  proof -
    assume h: "0 < sint maxWaiting"
    have "sint maxWaiting < 2 ^ 63"
      using sint_lt [of maxWaiting] by simp
    with h have "signed_take_bit 63 (sint maxWaiting - 2000000000) = sint maxWaiting - 2000000000"
      by (intro signed_take_bit_int_eq_self) simp_all
    then show ?thesis
      by (simp add: sint_word_ariths waitingInterval_def Second_def)
  qed
  with pos upper
  show "((w, labelSelector, imageSelector, namespace, maxWaiting - waitingInterval * 2, i + 1),
         (w, labelSelector, imageSelector, namespace, maxWaiting, i))
        \<in> measure (\<lambda>(w, labelSelector, imageSelector, namespace, maxWaiting, i).
                      if 0 < sint maxWaiting then nat (sint maxWaiting)
                      else 9223372036854775808)"
    by (cases "0 < sint maxWaiting") simp_all
qed simp

definition GetNewestRunningPod ::
  "Client \<Rightarrow> World \<Rightarrow> string \<Rightarrow> string list \<Rightarrow> string \<Rightarrow> Duration
     \<Rightarrow> (error + Pod) \<times> event list" where
  "GetNewestRunningPod client w labelSelector imageSelector namespace maxWaiting =
     (let namespace = namespaceUsed client namespace
      in newestLoop w labelSelector imageSelector namespace maxWaiting 0)"

declare imageLoop.simps [simp del] newestLoop.simps [simp del]

section \<open>Vocabulary of the properties\<close>

text \<open>
  An init container that the init scan passes over: terminated with exit code 0. The pod
  is past initialization when every init container status is of this kind.
\<close>

definition initSucceeded :: "ContainerStatus \<Rightarrow> bool" where
  "initSucceeded container =
     (case Terminated (State container) of Some t \<Rightarrow> ExitCode t = 0 | None \<Rightarrow> False)"

text \<open>The status of the pod before any container is looked at.\<close>

definition podReason :: "Pod \<Rightarrow> string" where
  "podReason pod = (if Status_Reason pod \<noteq> [] then Status_Reason pod else Status_Phase pod)"

text \<open>
  A main container exposes a reason when it has a non-empty waiting reason or is
  terminated; the reason is the waiting reason, else the terminated reason, else the
  signal or exit code. A container counts as ready and running when it exposes no reason,
  is ready and has a running state.
\<close>

definition exposesReason :: "ContainerStatus \<Rightarrow> bool" where
  "exposesReason container =
     ((case Waiting (State container) of Some w \<Rightarrow> Waiting_Reason w \<noteq> [] | None \<Rightarrow> False)
      \<or> Terminated (State container) \<noteq> None)"

definition terminatedReason :: "ContainerStateTerminated \<Rightarrow> string" where
  "terminatedReason t =
     (if Terminated_Reason t \<noteq> [] then Terminated_Reason t
      else if Signal t \<noteq> 0 then ''Signal:'' @ Sprintf_d (sint (Signal t))
      else ''ExitCode:'' @ Sprintf_d (sint (ExitCode t)))"

definition exposedReason :: "ContainerStatus \<Rightarrow> string" where
  "exposedReason container =
     (case Waiting (State container) of
        Some w \<Rightarrow>
          if Waiting_Reason w \<noteq> [] then Waiting_Reason w
          else (case Terminated (State container) of Some t \<Rightarrow> terminatedReason t | None \<Rightarrow> [])
      | None \<Rightarrow>
          (case Terminated (State container) of Some t \<Rightarrow> terminatedReason t | None \<Rightarrow> []))"

definition readyRunning :: "ContainerStatus \<Rightarrow> bool" where
  "readyRunning container =
     (\<not> exposesReason container \<and> Ready container \<and> Running (State container) \<noteq> None)"

text \<open>The reason the scan of the main containers leaves, before the last two overrides.\<close>

definition scannedReason :: "Pod \<Rightarrow> string" where
  "scannedReason pod =
     fst (containerLoop (rev (Status_ContainerStatuses pod)) (podReason pod, False))"

section \<open>Snapshots used as examples\<close>

definition stateWaiting :: "string \<Rightarrow> ContainerState" where
  "stateWaiting r = \<lparr>Waiting = Some \<lparr>Waiting_Reason = r\<rparr>, Running = None, Terminated = None\<rparr>"

definition stateRunning :: ContainerState where
  "stateRunning = \<lparr>Waiting = None, Running = Some \<lparr>StartedAt = 0\<rparr>, Terminated = None\<rparr>"

definition stateTerminated :: "int32 \<Rightarrow> int32 \<Rightarrow> string \<Rightarrow> ContainerState" where
  "stateTerminated code sig r =
     \<lparr>Waiting = None, Running = None,
      Terminated = Some \<lparr>ExitCode = code, Signal = sig, Terminated_Reason = r\<rparr>\<rparr>"

definition snapshot :: "string \<Rightarrow> ContainerStatus list \<Rightarrow> ContainerStatus list \<Rightarrow> Pod" where
  "snapshot phase inits mains =
     \<lparr>Name = ''web'', CreationTimestamp = 0, DeletionTimestamp = None,
      Spec_InitContainers = map (\<lambda>_. \<lparr>Image = ''init:v1''\<rparr>) inits,
      Spec_Containers = map (\<lambda>_. \<lparr>Image = ''app:v1''\<rparr>) mains,
      Status_Phase = phase, Status_Reason = [],
      Status_InitContainerStatuses = inits, Status_ContainerStatuses = mains\<rparr>"

definition pullLast :: Pod where
  "pullLast = snapshot ''Pending'' []
     [\<lparr>State = stateRunning, Ready = True\<rparr>,
      \<lparr>State = stateWaiting ''ImagePullBackOff'', Ready = False\<rparr>]"

definition crashThenPull :: Pod where
  "crashThenPull = snapshot ''Pending'' []
     [\<lparr>State = stateWaiting ''CrashLoopBackOff'', Ready = False\<rparr>,
      \<lparr>State = stateWaiting ''ImagePullBackOff'', Ready = False\<rparr>]"

definition errorThenCrash :: Pod where
  "errorThenCrash = snapshot ''Running'' []
     [\<lparr>State = stateRunning, Ready = True\<rparr>,
      \<lparr>State = stateTerminated 1 0 ''Error'', Ready = False\<rparr>,
      \<lparr>State = stateWaiting ''CrashLoopBackOff'', Ready = False\<rparr>]"

definition completedSidecars :: Pod where
  "completedSidecars = snapshot ''Running'' []
     [\<lparr>State = stateTerminated 0 0 ''Completed'', Ready = False\<rparr>,
      \<lparr>State = stateTerminated 0 0 ''Completed'', Ready = False\<rparr>,
      \<lparr>State = stateRunning, Ready = True\<rparr>]"

definition runningPod :: Pod where
  "runningPod = snapshot ''Running'' [] [\<lparr>State = stateRunning, Ready = True\<rparr>]"

definition pendingButRunning :: Pod where
  "pendingButRunning = snapshot ''Pending'' [] [\<lparr>State = stateRunning, Ready = True\<rparr>]"

definition initFailed :: Pod where
  "initFailed = snapshot ''Pending''
     [\<lparr>State = stateTerminated 0 0 ''Completed'', Ready = True\<rparr>,
      \<lparr>State = stateTerminated 3 0 [], Ready = False\<rparr>]
     [\<lparr>State = stateWaiting ''PodInitializing'', Ready = False\<rparr>]"

definition initSignalled :: Pod where
  "initSignalled = snapshot ''Pending''
     [\<lparr>State = stateTerminated 137 9 [], Ready = False\<rparr>]
     [\<lparr>State = stateWaiting ''PodInitializing'', Ready = False\<rparr>]"

definition initFailedTwice :: Pod where
  "initFailedTwice = snapshot ''Pending''
     [\<lparr>State = stateTerminated 1 0 [], Ready = False\<rparr>,
      \<lparr>State = stateTerminated 2 0 [], Ready = False\<rparr>]
     [\<lparr>State = stateWaiting ''PodInitializing'', Ready = False\<rparr>]"

definition deleted :: "Pod \<Rightarrow> Pod" where
  "deleted pod = pod\<lparr>DeletionTimestamp := Some 1\<rparr>"

definition nodeLost :: "Pod \<Rightarrow> Pod" where
  "nodeLost pod = pod\<lparr>DeletionTimestamp := Some 1, Status_Reason := ''NodeLost''\<rparr>"

definition crashLooping :: Pod where
  "crashLooping = snapshot ''Running'' []
     [\<lparr>State = stateWaiting ''CrashLoopBackOff'', Ready = False\<rparr>]"

definition olderPod :: Pod where
  "olderPod = runningPod\<lparr>Name := ''web-1'', CreationTimestamp := 100\<rparr>"

definition newerPod :: Pod where
  "newerPod = runningPod\<lparr>Name := ''web-2'', CreationTimestamp := 200\<rparr>"

definition otherImagePod :: Pod where
  "otherImagePod =
     runningPod\<lparr>Name := ''job-1'', CreationTimestamp := 300,
                Spec_Containers := [\<lparr>Image = ''job:v9''\<rparr>]\<rparr>"

section \<open>Vocabulary of the properties of the loops\<close>

text \<open>A pod passes the image selector when the selector is empty or names one of its images.\<close>

definition passesSelector :: "string list \<Rightarrow> Pod \<Rightarrow> bool" where
  "passesSelector imageSelector pod = (imageSelector = [] \<or> hasImage imageSelector pod)"

text \<open>A non-empty list of pods none of which carries an image of a non-empty selector.\<close>

definition noneSelected :: "string list \<Rightarrow> Pod list \<Rightarrow> bool" where
  "noneSelected imageSelector items =
     (items \<noteq> [] \<and> imageSelector \<noteq> [] \<and> \<not> list_ex (hasImage imageSelector) items)"

text \<open>
  The calls of a run of \<open>n\<close> iterations that went on to their second sleep, followed by
  an iteration that returned unless the budget ran out.
\<close>

definition pollingCalls :: "string \<Rightarrow> string \<Rightarrow> nat \<Rightarrow> bool \<Rightarrow> event list" where
  "pollingCalls namespace labelSelector n exhausted =
     concat (replicate n (iterationCalls namespace labelSelector))
     @ (if exhausted then [] else returningCalls namespace labelSelector)"

definition listCalls :: "event list \<Rightarrow> nat" where
  "listCalls calls = length (filter (\<lambda>e. case e of ListPods _ _ \<Rightarrow> True | Sleep _ \<Rightarrow> False) calls)"

section \<open>Clusters used as examples\<close>

text \<open>
  A clock on which the first check of an iteration comes after one second and each
  iteration takes two seconds, and one on which the API server takes long to answer.
\<close>

definition steadyClock :: "nat \<Rightarrow> Duration" where
  "steadyClock i = of_nat (2 * i + 1) * Second"

definition slowClock :: "nat \<Rightarrow> Duration" where
  "slowClock i = of_nat (25 * i + 1) * Second"

definition cluster :: "(nat \<Rightarrow> Duration) \<Rightarrow> Pod list \<Rightarrow> World" where
  "cluster clock items = \<lparr>Pods_List = (\<lambda>i namespace labelSelector. Inr items), Since = clock\<rparr>"

definition devClient :: Client where
  "devClient = \<lparr>Namespace = ''dev''\<rparr>"

section \<open>Properties of GetPodStatus\<close>

lemma initLoop_succeeded:
  "list_all initSucceeded cs \<Longrightarrow> initLoop pod i cs r = (r, False)"
  by (induction cs arbitrary: i) (auto simp: initSucceeded_def split: option.splits)

lemma initLoop_skip:
  "list_all initSucceeded before \<Longrightarrow>
     initLoop pod i (before @ rest) r = initLoop pod (i + length before) rest r"
  by (induction before arbitrary: i) (auto simp: initSucceeded_def split: option.splits)

lemma containerStep_exposes:
  "exposesReason c \<Longrightarrow> containerStep c acc = (exposedReason c, snd acc)"
  by (auto simp: exposesReason_def exposedReason_def terminatedReason_def containerStep_def
      elseTerminated_def split: option.splits)

lemma containerStep_quiet:
  "\<not> exposesReason c \<Longrightarrow> containerStep c acc = (fst acc, snd acc \<or> readyRunning c)"
  by (cases acc)
    (auto simp: exposesReason_def readyRunning_def containerStep_def elseTerminated_def
      split: option.splits)

lemma containerLoop_append:
  "containerLoop (xs @ ys) acc = containerLoop ys (containerLoop xs acc)"
  by (induction xs arbitrary: acc) auto

lemma containerLoop_quiet:
  "\<forall>c \<in> set cs. \<not> exposesReason c \<Longrightarrow>
     containerLoop cs acc = (fst acc, snd acc \<or> (\<exists>c \<in> set cs. readyRunning c))"
  by (induction cs arbitrary: acc) (auto simp: containerStep_quiet)

lemma containerLoop_snd:
  "snd (containerLoop cs acc) = (snd acc \<or> (\<exists>c \<in> set cs. readyRunning c))"
proof (induction cs arbitrary: acc)
  case Nil
  then show ?case by simp
next
  case (Cons c cs)
  show ?case
  proof (cases "exposesReason c")
    case True
    then show ?thesis
      by (simp add: Cons.IH containerStep_exposes readyRunning_def)
  next
    case False
    then show ?thesis
      by (auto simp add: Cons.IH containerStep_quiet)
  qed
qed

lemma containerLoop_first:
  assumes "\<forall>b \<in> set before. \<not> exposesReason b" and "exposesReason c"
  shows "fst (containerLoop (rev (before @ c # after)) acc) = exposedReason c"
proof -
  have "containerLoop (rev (before @ c # after)) acc =
          containerLoop (rev before) (containerStep c (containerLoop (rev after) acc))"
    by (simp add: containerLoop_append)
  also have "\<dots> = containerLoop (rev before) (exposedReason c, snd (containerLoop (rev after) acc))"
    using assms(2) by (simp add: containerStep_exposes)
  finally show ?thesis
    using assms(1) by (simp add: containerLoop_quiet)
qed

text \<open>
  Past initialization and without a deletion timestamp, the status is the reason the scan
  of the main containers leaves, except that Completed becomes Running when some
  container is ready and running.
\<close>

lemma GetPodStatus_scanned:
  assumes "list_all initSucceeded (Status_InitContainerStatuses pod)"
    and "DeletionTimestamp pod = None"
  shows "GetPodStatus pod =
           (if scannedReason pod = ''Completed''
               \<and> (\<exists>c \<in> set (Status_ContainerStatuses pod). readyRunning c)
            then ''Running'' else scannedReason pod)"
proof -
  let ?scan = "containerLoop (rev (Status_ContainerStatuses pod)) (podReason pod, False)"
  have init: "initLoop pod 0 (Status_InitContainerStatuses pod) (podReason pod)
                = (podReason pod, False)"
    using assms(1) by (rule initLoop_succeeded)
  have running: "snd ?scan = (\<exists>c \<in> set (Status_ContainerStatuses pod). readyRunning c)"
    by (simp add: containerLoop_snd)
  have "GetPodStatus pod = (if fst ?scan = ''Completed'' \<and> snd ?scan then ''Running'' else fst ?scan)"
    using assms(2) init
    by (simp add: GetPodStatus_def podReason_def Let_def split: prod.split)
  then show ?thesis
    by (simp only: running scannedReason_def)
qed

text \<open>
  C1, as amended. Past initialization and without a deletion timestamp, a pod whose
  last-declared main container waits with reason ImagePullBackOff is reported as
  ImagePullBackOff when no earlier-declared main container exposes a reason of its own.
\<close>

theorem GetPodStatus_last_ImagePullBackOff:
  assumes "list_all initSucceeded (Status_InitContainerStatuses pod)"
    and "DeletionTimestamp pod = None"
    and "Status_ContainerStatuses pod = earlier @ [container]"
    and "Waiting (State container) = Some w"
    and "Waiting_Reason w = ''ImagePullBackOff''"
    and "\<forall>c \<in> set earlier. \<not> exposesReason c"
  shows "GetPodStatus pod = ''ImagePullBackOff''"
proof -
  have exposes: "exposesReason container"
    using assms(4,5) by (simp add: exposesReason_def)
  have reason: "exposedReason container = ''ImagePullBackOff''"
    using assms(4,5) by (simp add: exposedReason_def)
  have "scannedReason pod = exposedReason container"
    unfolding scannedReason_def assms(3)
    using assms(6) exposes by (rule containerLoop_first)
  with reason have "scannedReason pod = ''ImagePullBackOff''"
    by simp
  with assms(1,2) show ?thesis
    by (simp add: GetPodStatus_scanned)
qed

theorem GetPodStatus_last_ImagePullBackOff_witness:
  "list_all initSucceeded (Status_InitContainerStatuses pullLast)
   \<and> DeletionTimestamp pullLast = None
   \<and> Status_ContainerStatuses pullLast =
       [\<lparr>State = stateRunning, Ready = True\<rparr>]
       @ [\<lparr>State = stateWaiting ''ImagePullBackOff'', Ready = False\<rparr>]
   \<and> GetPodStatus pullLast = ''ImagePullBackOff''"
  using GetPodStatus_last_ImagePullBackOff
    [of pullLast "[\<lparr>State = stateRunning, Ready = True\<rparr>]"
        "\<lparr>State = stateWaiting ''ImagePullBackOff'', Ready = False\<rparr>"
        "\<lparr>Waiting_Reason = ''ImagePullBackOff''\<rparr>"]
  by (simp add: pullLast_def snapshot_def stateWaiting_def stateRunning_def exposesReason_def)

text \<open>
  C1 as stated fails: the scan runs from the last container to the first and overwrites
  the reason at every container that exposes one, so an earlier container wins.
\<close>

theorem GetPodStatus_last_ImagePullBackOff_counterexample:
  "list_all initSucceeded (Status_InitContainerStatuses crashThenPull)
   \<and> DeletionTimestamp crashThenPull = None
   \<and> map_option Waiting_Reason (Waiting (State (last (Status_ContainerStatuses crashThenPull))))
       = Some ''ImagePullBackOff''
   \<and> GetPodStatus crashThenPull = ''CrashLoopBackOff''
   \<and> GetPodStatus crashThenPull \<noteq> ''ImagePullBackOff''"
  by (simp add: crashThenPull_def snapshot_def stateWaiting_def GetPodStatus_def
      containerStep_def)

text \<open>
  C2, as amended. Past initialization and without a deletion timestamp, when some main
  container exposes a reason, the status is the reason of the first-declared such
  container, whatever later containers expose; only the reason Completed is reported as
  Running when some container is ready and running.
\<close>

theorem GetPodStatus_first_declared_wins:
  assumes "list_all initSucceeded (Status_InitContainerStatuses pod)"
    and "DeletionTimestamp pod = None"
    and "Status_ContainerStatuses pod = before @ container # after"
    and "\<forall>b \<in> set before. \<not> exposesReason b"
    and "exposesReason container"
  shows "GetPodStatus pod =
           (if exposedReason container = ''Completed''
               \<and> (\<exists>c \<in> set (Status_ContainerStatuses pod). readyRunning c)
            then ''Running'' else exposedReason container)"
proof -
  have "scannedReason pod = exposedReason container"
    unfolding scannedReason_def assms(3)
    using assms(4,5) by (rule containerLoop_first)
  with assms(1,2) show ?thesis
    by (simp add: GetPodStatus_scanned)
qed

theorem GetPodStatus_first_declared_wins_witness:
  "list_all initSucceeded (Status_InitContainerStatuses errorThenCrash)
   \<and> DeletionTimestamp errorThenCrash = None
   \<and> Status_ContainerStatuses errorThenCrash =
       [\<lparr>State = stateRunning, Ready = True\<rparr>]
       @ \<lparr>State = stateTerminated 1 0 ''Error'', Ready = False\<rparr>
       # [\<lparr>State = stateWaiting ''CrashLoopBackOff'', Ready = False\<rparr>]
   \<and> exposesReason \<lparr>State = stateTerminated 1 0 ''Error'', Ready = False\<rparr>
   \<and> exposesReason \<lparr>State = stateWaiting ''CrashLoopBackOff'', Ready = False\<rparr>
   \<and> GetPodStatus errorThenCrash = ''Error''"
  using GetPodStatus_first_declared_wins
    [of errorThenCrash "[\<lparr>State = stateRunning, Ready = True\<rparr>]"
        "\<lparr>State = stateTerminated 1 0 ''Error'', Ready = False\<rparr>"
        "[\<lparr>State = stateWaiting ''CrashLoopBackOff'', Ready = False\<rparr>]"]
  by (simp add: errorThenCrash_def snapshot_def stateWaiting_def stateRunning_def
      stateTerminated_def exposesReason_def exposedReason_def terminatedReason_def)

text \<open>
  C2 as stated fails where the first-declared container that exposes a reason has
  completed and another container is ready and running.
\<close>

theorem GetPodStatus_first_declared_wins_counterexample:
  "list_all initSucceeded (Status_InitContainerStatuses completedSidecars)
   \<and> DeletionTimestamp completedSidecars = None
   \<and> exposesReason (Status_ContainerStatuses completedSidecars ! 0)
   \<and> exposesReason (Status_ContainerStatuses completedSidecars ! 1)
   \<and> exposedReason (Status_ContainerStatuses completedSidecars ! 0) = ''Completed''
   \<and> GetPodStatus completedSidecars = ''Running''
   \<and> GetPodStatus completedSidecars
       \<noteq> exposedReason (Status_ContainerStatuses completedSidecars ! 0)"
  by (simp add: completedSidecars_def snapshot_def stateRunning_def stateTerminated_def
      exposesReason_def exposedReason_def terminatedReason_def GetPodStatus_def
      containerStep_def elseTerminated_def)

text \<open>
  C8, as amended. Without init containers and without a deletion timestamp, a pod whose
  only main container is running and ready is reported with its pod-level status (the
  pod-level reason, or the phase when that is empty), Completed being reported as
  Running: so as Running when the pod-level status is Running or Completed. And whenever
  a pod past initialization and without deletion timestamp would be Completed after the
  scan of its main containers while some container is ready and running, it is reported
  as Running.
\<close>

theorem GetPodStatus_running_container:
  assumes "list_all initSucceeded (Status_InitContainerStatuses pod)"
    and "DeletionTimestamp pod = None"
  shows "(Status_InitContainerStatuses pod = [] \<and> Status_ContainerStatuses pod = [container]
          \<and> Running (State container) \<noteq> None \<and> Waiting (State container) = None
          \<and> Terminated (State container) = None \<and> Ready container
          \<longrightarrow> GetPodStatus pod =
                (if podReason pod = ''Completed'' then ''Running'' else podReason pod))
       \<and> (scannedReason pod = ''Completed''
          \<and> (\<exists>c \<in> set (Status_ContainerStatuses pod). readyRunning c)
          \<longrightarrow> GetPodStatus pod = ''Running'')"
proof (intro conjI impI)
  assume single: "Status_InitContainerStatuses pod = [] \<and> Status_ContainerStatuses pod = [container]
          \<and> Running (State container) \<noteq> None \<and> Waiting (State container) = None
          \<and> Terminated (State container) = None \<and> Ready container"
  then have quiet: "\<not> exposesReason container" and live: "readyRunning container"
    by (simp_all add: exposesReason_def readyRunning_def)
  from single quiet have "scannedReason pod = podReason pod"
    by (simp add: scannedReason_def containerStep_quiet)
  with single live assms show "GetPodStatus pod =
      (if podReason pod = ''Completed'' then ''Running'' else podReason pod)"
    by (simp add: GetPodStatus_scanned)
next
  assume "scannedReason pod = ''Completed''
          \<and> (\<exists>c \<in> set (Status_ContainerStatuses pod). readyRunning c)"
  with assms show "GetPodStatus pod = ''Running''"
    by (simp add: GetPodStatus_scanned)
qed

theorem GetPodStatus_running_container_witness:
  "list_all initSucceeded (Status_InitContainerStatuses runningPod)
   \<and> DeletionTimestamp runningPod = None
   \<and> Status_InitContainerStatuses runningPod = []
   \<and> Status_ContainerStatuses runningPod = [\<lparr>State = stateRunning, Ready = True\<rparr>]
   \<and> GetPodStatus runningPod = ''Running''
   \<and> scannedReason completedSidecars = ''Completed''
   \<and> list_ex readyRunning (Status_ContainerStatuses completedSidecars)
   \<and> GetPodStatus completedSidecars = ''Running''"
  using GetPodStatus_running_container [of runningPod "\<lparr>State = stateRunning, Ready = True\<rparr>"]
    GetPodStatus_running_container [of completedSidecars]
  by (simp add: runningPod_def completedSidecars_def snapshot_def stateRunning_def
      stateTerminated_def podReason_def scannedReason_def containerStep_def
      elseTerminated_def readyRunning_def exposesReason_def)

text \<open>
  C8 as stated fails: the running container does not set the status, and a pod-level
  phase other than Running or Completed is returned as it is.
\<close>

theorem GetPodStatus_running_container_counterexample:
  "Status_InitContainerStatuses pendingButRunning = []
   \<and> DeletionTimestamp pendingButRunning = None
   \<and> Status_ContainerStatuses pendingButRunning = [\<lparr>State = stateRunning, Ready = True\<rparr>]
   \<and> Running stateRunning \<noteq> None
   \<and> GetPodStatus pendingButRunning = ''Pending''
   \<and> GetPodStatus pendingButRunning \<noteq> ''Running''"
  by (simp add: pendingButRunning_def snapshot_def stateRunning_def GetPodStatus_def
      containerStep_def elseTerminated_def)

text \<open>
  C9, as amended. When the first init container that has not terminated with exit code 0
  is terminated with a non-zero exit code, an empty reason and signal 0, and the pod has
  no deletion timestamp, the status is Init:ExitCode: followed by the exit code.
\<close>

theorem GetPodStatus_init_exit_code:
  assumes "Status_InitContainerStatuses pod = before @ container # after"
    and "list_all initSucceeded before"
    and "Terminated (State container) = Some t"
    and "ExitCode t \<noteq> 0"
    and "Terminated_Reason t = []"
    and "Signal t = 0"
    and "DeletionTimestamp pod = None"
  shows "GetPodStatus pod = ''Init:ExitCode:'' @ Sprintf_d (sint (ExitCode t))"
proof -
  have "initLoop pod 0 (Status_InitContainerStatuses pod) (podReason pod)
          = initLoop pod (0 + length before) (container # after) (podReason pod)"
    unfolding assms(1) using assms(2) by (rule initLoop_skip)
  also have "\<dots> = (''Init:ExitCode:'' @ Sprintf_d (sint (ExitCode t)), True)"
    using assms(3-6) by simp
  finally show ?thesis
    using assms(7) by (simp add: GetPodStatus_def podReason_def)
qed

theorem GetPodStatus_init_exit_code_witness:
  "Status_InitContainerStatuses initFailed =
     [\<lparr>State = stateTerminated 0 0 ''Completed'', Ready = True\<rparr>]
     @ \<lparr>State = stateTerminated 3 0 [], Ready = False\<rparr> # []
   \<and> DeletionTimestamp initFailed = None
   \<and> GetPodStatus initFailed = ''Init:ExitCode:3''"
  using GetPodStatus_init_exit_code
    [of initFailed "[\<lparr>State = stateTerminated 0 0 ''Completed'', Ready = True\<rparr>]"
        "\<lparr>State = stateTerminated 3 0 [], Ready = False\<rparr>" "[]"
        "\<lparr>ExitCode = 3, Signal = 0, Terminated_Reason = []\<rparr>"]
  by (simp add: initFailed_def snapshot_def stateTerminated_def initSucceeded_def
      Sprintf_d_def decimal.simps digit_def)

text \<open>
  C9 as stated fails in three ways: a non-zero signal is reported instead of the exit
  code, an earlier failed init container is reported instead of a later one, and a
  deletion timestamp overrides both.
\<close>

theorem GetPodStatus_init_exit_code_counterexample:
  "map_option ExitCode (Terminated (State (Status_InitContainerStatuses initSignalled ! 0)))
     = Some 137
   \<and> map_option Terminated_Reason
       (Terminated (State (Status_InitContainerStatuses initSignalled ! 0))) = Some []
   \<and> GetPodStatus initSignalled = ''Init:Signal:9''
   \<and> map_option ExitCode (Terminated (State (Status_InitContainerStatuses initFailedTwice ! 1)))
       = Some 2
   \<and> map_option Terminated_Reason
       (Terminated (State (Status_InitContainerStatuses initFailedTwice ! 1))) = Some []
   \<and> GetPodStatus initFailedTwice = ''Init:ExitCode:1''
   \<and> map_option ExitCode
       (Terminated (State (Status_InitContainerStatuses (deleted initFailed) ! 1))) = Some 3
   \<and> map_option Terminated_Reason
       (Terminated (State (Status_InitContainerStatuses (deleted initFailed) ! 1))) = Some []
   \<and> GetPodStatus (deleted initFailed) = ''Terminating''"
  by (simp add: initSignalled_def initFailedTwice_def initFailed_def deleted_def snapshot_def
      stateTerminated_def GetPodStatus_def NodeUnreachablePodReason_def Sprintf_d_def
      decimal.simps digit_def)

text \<open>
  C10. Whatever phase, init containers and main containers say, a pod with a deletion
  timestamp is reported as Unknown when its pod-level reason is the node-unreachable
  reason, and as Terminating otherwise.
\<close>

theorem GetPodStatus_deletion_override:
  "DeletionTimestamp pod \<noteq> None \<Longrightarrow>
     GetPodStatus pod =
       (if Status_Reason pod = NodeUnreachablePodReason then ''Unknown'' else ''Terminating'')"
  by (simp add: GetPodStatus_def Let_def split: prod.split)

theorem GetPodStatus_deletion_override_witness:
  "DeletionTimestamp (deleted initFailed) \<noteq> None
   \<and> GetPodStatus (deleted initFailed) = ''Terminating''
   \<and> DeletionTimestamp (nodeLost runningPod) \<noteq> None
   \<and> GetPodStatus (nodeLost runningPod) = ''Unknown''"
  using GetPodStatus_deletion_override [of "deleted initFailed"]
    GetPodStatus_deletion_override [of "nodeLost runningPod"]
  by (simp add: deleted_def nodeLost_def NodeUnreachablePodReason_def initFailed_def
      runningPod_def snapshot_def)

section \<open>Properties of GetNewestRunningPod\<close>

lemma selectLoop_selected:
  "selectLoop imageSelector items selectedPod = Some pod \<Longrightarrow>
     selectedPod = Some pod \<or> (pod \<in> set items \<and> passesSelector imageSelector pod)"
  by (induction items arbitrary: selectedPod)
    (fastforce simp: passesSelector_def split: if_splits option.splits)+

lemma selectLoop_None:
  "selectLoop imageSelector items None = None \<longleftrightarrow>
     items = [] \<or> noneSelected imageSelector items"
proof -
  have some: "selectLoop sel xs (Some s) \<noteq> None" for sel xs s
    by (induction xs arbitrary: s) auto
  show ?thesis
    by (induction items) (auto simp: noneSelected_def some)
qed

lemma selectLoop_newest:
  assumes "passesSelector imageSelector newest"
    and "\<forall>q \<in> set items. passesSelector imageSelector q \<longrightarrow>
           q = newest \<or> CreationTimestamp q < CreationTimestamp newest"
    and "newest \<in> set items \<or> selectedPod = Some newest"
    and "case selectedPod of None \<Rightarrow> True
         | Some s \<Rightarrow> s = newest \<or> CreationTimestamp s < CreationTimestamp newest"
  shows "selectLoop imageSelector items selectedPod = Some newest"
  using assms(2-4)
proof (induction items arbitrary: selectedPod)
  case Nil
  then show ?case by simp
next
  case (Cons x xs)
  let ?next = "if (case selectedPod of None \<Rightarrow> True
                   | Some selected \<Rightarrow> CreationTimestamp x > CreationTimestamp selected)
               then (if length imageSelector > 0
                     then (if hasImage imageSelector x then Some x else selectedPod)
                     else Some x)
               else selectedPod"
  have older: "\<forall>q \<in> set xs. passesSelector imageSelector q \<longrightarrow>
                 q = newest \<or> CreationTimestamp q < CreationTimestamp newest"
    using Cons.prems(1) by simp
  have x_ok: "passesSelector imageSelector x \<Longrightarrow>
                x = newest \<or> CreationTimestamp x < CreationTimestamp newest"
    using Cons.prems(1) by simp
  have inv: "case ?next of None \<Rightarrow> True
             | Some s \<Rightarrow> s = newest \<or> CreationTimestamp s < CreationTimestamp newest"
    using Cons.prems(3) x_ok
    by (auto simp: passesSelector_def split: option.splits)
  have there: "newest \<in> set xs \<or> ?next = Some newest"
    using Cons.prems(2,3) assms(1) x_ok
    by (auto simp: passesSelector_def split: option.splits)
  have "selectLoop imageSelector (x # xs) selectedPod = selectLoop imageSelector xs ?next"
    by simp
  also have "\<dots> = Some newest"
    using older there inv by (rule Cons.IH)
  finally show ?case .
qed

lemma newestLoop_selected:
  assumes "Pods_List w i namespace labelSelector = Inr items"
    and "selectLoop imageSelector items None = Some pod"
  shows "newestLoop w labelSelector imageSelector namespace maxWaiting i =
     (if GetPodStatus pod = ''Running'' then (Inr pod, returningCalls namespace labelSelector)
      else if CriticalStatus (GetPodStatus pod)
      then (Inl (selectedCannotStart (GetPodStatus pod)), returningCalls namespace labelSelector)
      else if 0 < sint (maxWaiting - waitingInterval * 2)
      then (let (result, calls) =
                  newestLoop w labelSelector imageSelector namespace
                    (maxWaiting - waitingInterval * 2) (i + 1)
            in (result, iterationCalls namespace labelSelector @ calls))
      else (Inl (noPodFound labelSelector namespace), iterationCalls namespace labelSelector))"
proof -
  have "items \<noteq> []"
    using assms(2) by auto
  then have "evaluateNewest labelSelector imageSelector namespace (Since w i) items =
     (if GetPodStatus pod = ''Running'' then Some (Inr pod)
      else if CriticalStatus (GetPodStatus pod)
      then Some (Inl (selectedCannotStart (GetPodStatus pod)))
      else None)"
    using assms(2) by (simp add: evaluateNewest_def CriticalStatus_def Let_def)
  then show ?thesis
    using assms(1) by (subst newestLoop.simps) simp
qed


lemma newestLoop_returned:
  "fst (newestLoop w labelSelector imageSelector namespace maxWaiting i) = Inr pod \<Longrightarrow>
     \<exists>j items. i \<le> j \<and> Pods_List w j namespace labelSelector = Inr items
        \<and> selectLoop imageSelector items None = Some pod \<and> GetPodStatus pod = ''Running''"
proof (induction w labelSelector imageSelector namespace maxWaiting i rule: newestLoop.induct)
  case (1 w labelSelector imageSelector namespace maxWaiting i)
  show ?case
  proof (cases "Pods_List w i namespace labelSelector")
    case (Inl err)
    with "1.prems" show ?thesis
      by (subst (asm) newestLoop.simps) simp
  next
    case (Inr items)
    show ?thesis
    proof (cases "evaluateNewest labelSelector imageSelector namespace (Since w i) items")
      case (Some result)
      with Inr "1.prems" have "result = Inr pod"
        by (subst (asm) newestLoop.simps) simp
      with Some have "selectLoop imageSelector items None = Some pod \<and> GetPodStatus pod = ''Running''"
        by (auto simp: evaluateNewest_def Let_def split: if_splits option.splits)
      with Inr show ?thesis by blast
    next
      case None
      show ?thesis
      proof (cases "0 < sint (maxWaiting - waitingInterval * 2)")
        case True
        with Inr None "1.prems"
        have "fst (newestLoop w labelSelector imageSelector namespace
                     (maxWaiting - waitingInterval * 2) (i + 1)) = Inr pod"
          by (subst (asm) newestLoop.simps) (simp split: prod.splits)
        with "1.IH" [OF Inr None True]
        obtain j items' where "i + 1 \<le> j" "Pods_List w j namespace labelSelector = Inr items'"
          "selectLoop imageSelector items' None = Some pod" "GetPodStatus pod = ''Running''"
          by blast
        then show ?thesis
          by (intro exI [of _ j] exI [of _ items']) simp
      next
        case False
        with Inr None "1.prems" show ?thesis
          by (subst (asm) newestLoop.simps) simp
      qed
    qed
  qed
qed

text \<open>
  C7. In any iteration in which a pod is selected, its status decides: Running returns
  the pod, a critical status returns the error of that status, both without a second
  sleep or a further call; any other status goes on to the second sleep and, while
  budget remains, to the next iteration, and to the final error when none remains.
\<close>

theorem newest_candidate_decides:
  assumes "Pods_List w i namespace labelSelector = Inr items"
    and "selectLoop imageSelector items None = Some pod"
  shows "(GetPodStatus pod = ''Running'' \<longrightarrow>
            newestLoop w labelSelector imageSelector namespace maxWaiting i =
              (Inr pod, returningCalls namespace labelSelector))
       \<and> (CriticalStatus (GetPodStatus pod) \<longrightarrow>
            newestLoop w labelSelector imageSelector namespace maxWaiting i =
              (Inl (selectedCannotStart (GetPodStatus pod)),
               returningCalls namespace labelSelector))
       \<and> (GetPodStatus pod \<noteq> ''Running'' \<and> \<not> CriticalStatus (GetPodStatus pod) \<longrightarrow>
            newestLoop w labelSelector imageSelector namespace maxWaiting i =
              (if 0 < sint (maxWaiting - waitingInterval * 2)
               then (let (result, calls) =
                           newestLoop w labelSelector imageSelector namespace
                             (maxWaiting - waitingInterval * 2) (i + 1)
                     in (result, iterationCalls namespace labelSelector @ calls))
               else (Inl (noPodFound labelSelector namespace),
                     iterationCalls namespace labelSelector)))"
proof -
  note step = newestLoop_selected [OF assms, of maxWaiting]
  have "GetPodStatus pod = ''Running'' \<Longrightarrow> \<not> CriticalStatus (GetPodStatus pod)"
    by (simp add: CriticalStatus_def)
  with step show ?thesis
    by (cases "GetPodStatus pod = ''Running''"; cases "CriticalStatus (GetPodStatus pod)") simp_all
qed

theorem newest_candidate_decides_witness:
  "Pods_List (cluster steadyClock [crashLooping]) 0 ''dev'' ''app=web'' = Inr [crashLooping]
   \<and> hasImage [''app:v1''] crashLooping
   \<and> GetPodStatus crashLooping = ''CrashLoopBackOff''
   \<and> GetNewestRunningPod devClient (cluster steadyClock [crashLooping]) ''app=web''
        [''app:v1''] [] (120 * Second)
       = (Inl (Errorf ''Selected Pod(s) cannot start (Status: CrashLoopBackOff)''),
          [Sleep waitingInterval, ListPods ''dev'' ''app=web''])
   \<and> GetNewestRunningPod devClient (cluster steadyClock [runningPod]) ''app=web''
        [''app:v1''] [] (120 * Second)
       = (Inr runningPod, [Sleep waitingInterval, ListPods ''dev'' ''app=web''])
   \<and> GetNewestRunningPod devClient (cluster steadyClock [pendingButRunning]) ''app=web''
        [''app:v1''] [] (1 * Second)
       = (Inl (noPodFound ''app=web'' ''dev''),
          [Sleep waitingInterval, ListPods ''dev'' ''app=web'', Sleep waitingInterval])"
  using newest_candidate_decides
    [of "cluster steadyClock [crashLooping]" 0 "''dev''" "''app=web''" "[crashLooping]"
        "[''app:v1'']" crashLooping "120 * Second"]
    newest_candidate_decides
    [of "cluster steadyClock [runningPod]" 0 "''dev''" "''app=web''" "[runningPod]"
        "[''app:v1'']" runningPod "120 * Second"]
    newest_candidate_decides
    [of "cluster steadyClock [pendingButRunning]" 0 "''dev''" "''app=web''"
        "[pendingButRunning]" "[''app:v1'']" pendingButRunning "1 * Second"]
  by (simp add: GetNewestRunningPod_def namespaceUsed_def devClient_def cluster_def crashLooping_def
      runningPod_def pendingButRunning_def snapshot_def stateWaiting_def stateRunning_def
      hasImage_def imageMatches_def GetPodStatus_def containerStep_def elseTerminated_def
      CriticalStatus_def selectedCannotStart_def returningCalls_def iterationCalls_def
      waitingInterval_def Second_def)

text \<open>
  C6. In any iteration, a pod that passes the image selector and was created strictly
  after every other listed pod that passes it is the one selected, and the call returns
  it when its status is Running. With a non-empty image selector, a pod without an image
  of the selector is neither selected nor ever returned, however new it is.
\<close>

theorem newest_pod_selected:
  "(Pods_List w i namespace labelSelector = Inr items
      \<and> newest \<in> set items \<and> passesSelector imageSelector newest
      \<and> (\<forall>q \<in> set items. passesSelector imageSelector q \<longrightarrow>
             q = newest \<or> CreationTimestamp q < CreationTimestamp newest)
      \<and> GetPodStatus newest = ''Running''
    \<longrightarrow> newestLoop w labelSelector imageSelector namespace maxWaiting i =
          (Inr newest, returningCalls namespace labelSelector))
   \<and> (imageSelector \<noteq> [] \<and> selectLoop imageSelector items None = Some pod
    \<longrightarrow> hasImage imageSelector pod)
   \<and> (imageSelector \<noteq> []
      \<and> fst (newestLoop w labelSelector imageSelector namespace maxWaiting i) = Inr pod
    \<longrightarrow> hasImage imageSelector pod)"
proof (intro conjI impI)
  assume h: "Pods_List w i namespace labelSelector = Inr items
      \<and> newest \<in> set items \<and> passesSelector imageSelector newest
      \<and> (\<forall>q \<in> set items. passesSelector imageSelector q \<longrightarrow>
             q = newest \<or> CreationTimestamp q < CreationTimestamp newest)
      \<and> GetPodStatus newest = ''Running''"
  then have "selectLoop imageSelector items None = Some newest"
    by (intro selectLoop_newest) simp_all
  with h show "newestLoop w labelSelector imageSelector namespace maxWaiting i =
          (Inr newest, returningCalls namespace labelSelector)"
    by (simp add: newestLoop_selected)
next
  assume "imageSelector \<noteq> [] \<and> selectLoop imageSelector items None = Some pod"
  then show "hasImage imageSelector pod"
    using selectLoop_selected [of imageSelector items None pod]
    by (simp add: passesSelector_def)
next
  assume h: "imageSelector \<noteq> []
      \<and> fst (newestLoop w labelSelector imageSelector namespace maxWaiting i) = Inr pod"
  then obtain items' where "selectLoop imageSelector items' None = Some pod"
    using newestLoop_returned [of w labelSelector imageSelector namespace maxWaiting i pod]
    by blast
  with h show "hasImage imageSelector pod"
    using selectLoop_selected [of imageSelector items' None pod]
    by (simp add: passesSelector_def)
qed


theorem newest_pod_selected_witness:
  "CreationTimestamp olderPod < CreationTimestamp newerPod
   \<and> hasImage [''app:v1''] olderPod \<and> hasImage [''app:v1''] newerPod
   \<and> GetNewestRunningPod devClient (cluster steadyClock [olderPod, newerPod]) ''app=web''
        [''app:v1''] [] (120 * Second)
       = (Inr newerPod, returningCalls ''dev'' ''app=web'')
   \<and> GetNewestRunningPod devClient (cluster steadyClock [newerPod, olderPod]) ''app=web''
        [] [] (120 * Second)
       = (Inr newerPod, returningCalls ''dev'' ''app=web'')
   \<and> CreationTimestamp olderPod < CreationTimestamp otherImagePod
   \<and> \<not> hasImage [''app:v1''] otherImagePod
   \<and> GetNewestRunningPod devClient (cluster steadyClock [olderPod, otherImagePod]) ''app=web''
        [''app:v1''] [] (120 * Second)
       = (Inr olderPod, returningCalls ''dev'' ''app=web'')"
  using newest_pod_selected
    [where w = "cluster steadyClock [olderPod, newerPod]" and i = 0 and namespace = "''dev''"
       and labelSelector = "''app=web''" and items = "[olderPod, newerPod]"
       and newest = newerPod and imageSelector = "[''app:v1'']"
       and maxWaiting = "120 * Second"]
    newest_pod_selected
    [where w = "cluster steadyClock [newerPod, olderPod]" and i = 0 and namespace = "''dev''"
       and labelSelector = "''app=web''" and items = "[newerPod, olderPod]"
       and newest = newerPod and imageSelector = "[]" and maxWaiting = "120 * Second"]
    newest_pod_selected
    [where w = "cluster steadyClock [olderPod, otherImagePod]" and i = 0
       and namespace = "''dev''" and labelSelector = "''app=web''"
       and items = "[olderPod, otherImagePod]" and newest = olderPod
       and imageSelector = "[''app:v1'']" and maxWaiting = "120 * Second"]
  by (simp add: GetNewestRunningPod_def namespaceUsed_def devClient_def cluster_def
      olderPod_def newerPod_def otherImagePod_def runningPod_def snapshot_def stateRunning_def
      passesSelector_def hasImage_def imageMatches_def GetPodStatus_def containerStep_def
      elseTerminated_def)

section \<open>The wait budget\<close>

lemma sint_budget_step:
  "0 \<le> sint (m :: Duration) \<Longrightarrow> sint (m - waitingInterval * 2) = sint m - 2000000000"
proof -
  assume nonneg: "0 \<le> sint m"
  have "sint m < 2 ^ 63"
    using sint_lt [of m] by simp
  with nonneg have "signed_take_bit 63 (sint m - 2000000000) = sint m - 2000000000"
    by (intro signed_take_bit_int_eq_self) simp_all
  then show ?thesis
    by (simp add: sint_word_ariths waitingInterval_def Second_def)
qed

lemma pollingCalls_Suc:
  "iterationCalls namespace labelSelector @ pollingCalls namespace labelSelector n exhausted =
     pollingCalls namespace labelSelector (Suc n) exhausted"
  by (simp add: pollingCalls_def)

lemma listCalls_pollingCalls:
  "listCalls (pollingCalls namespace labelSelector n exhausted) = (if exhausted then n else n + 1)"
  by (induction n)
    (simp_all add: pollingCalls_def listCalls_def iterationCalls_def returningCalls_def)

lemma evaluateNewest_result:
  "evaluateNewest labelSelector imageSelector namespace elapsed items = Some result \<Longrightarrow>
     result \<noteq> Inl (noPodFound a b)"
  by (auto simp: evaluateNewest_def Let_def noPodFound_def selectedCannotStart_def
      couldntFind_def split: if_splits option.splits)

lemma PodLoop_error:
  "PodLoop imageNames items pods = Inl err \<Longrightarrow> err \<noteq> timedOut a b"
  by (induction items arbitrary: pods)
    (auto simp: Let_def cannotStart_def timedOut_def split: if_splits)

lemma evaluatePods_result:
  "evaluatePods imageNames minWait items = Some result \<Longrightarrow> result \<noteq> Inl (timedOut a b)"
  by (auto simp: evaluatePods_def split: if_splits sum.splits dest: PodLoop_error)

text \<open>
  The runs of the first loop: every iteration sleeps, lists and, unless it returns, sleeps
  again; the time-out is the result exactly of the runs that use up the budget.
\<close>

lemma imageLoop_calls:
  "\<exists>n. snd (imageLoop w imageNames namespace maxWaiting minWait i) =
          pollingCalls namespace [] n
            (fst (imageLoop w imageNames namespace maxWaiting minWait i)
               = Inl (timedOut imageNames namespace))
      \<and> (if fst (imageLoop w imageNames namespace maxWaiting minWait i)
               = Inl (timedOut imageNames namespace)
         then int n = (if 0 \<le> sint maxWaiting then sint maxWaiting div 2000000000 + 1 else 0)
         else 0 \<le> sint maxWaiting \<and> int n < sint maxWaiting div 2000000000 + 1)"
proof (induction w imageNames namespace maxWaiting minWait i rule: imageLoop.induct)
  case (1 w imageNames namespace maxWaiting minWait i)
  let ?r = "imageLoop w imageNames namespace maxWaiting minWait i"
  show ?case
  proof (cases "0 \<le> sint maxWaiting")
    case False
    then have "?r = (Inl (timedOut imageNames namespace), [])"
      by (subst imageLoop.simps) simp
    with False show ?thesis
      by (intro exI [of _ 0]) (simp add: pollingCalls_def)
  next
    case True
    note budget = sint_budget_step [OF True]
    show ?thesis
    proof (cases "Pods_List w i namespace []")
      case (Inl err)
      with True have "?r = (Inl (ClientError err), returningCalls namespace [])"
        by (subst imageLoop.simps) simp
      with True show ?thesis
        by (intro exI [of _ 0]) (simp add: pollingCalls_def timedOut_def)
    next
      case (Inr items)
      show ?thesis
      proof (cases "evaluatePods imageNames minWait items")
        case (Some result)
        with True Inr have r: "?r = (result, returningCalls namespace [])"
          by (subst imageLoop.simps) simp
        from Some have "result \<noteq> Inl (timedOut imageNames namespace)"
          by (rule evaluatePods_result)
        with r True show ?thesis
          by (intro exI [of _ 0]) (simp add: pollingCalls_def)
      next
        case None
        let ?r' = "imageLoop w imageNames namespace (maxWaiting - waitingInterval * 2)
                     (minWait - waitingInterval * 2) (i + 1)"
        from True Inr None have r: "?r = (fst ?r', iterationCalls namespace [] @ snd ?r')"
          by (subst imageLoop.simps) (simp split: prod.splits)
        from "1.IH" [OF True Inr None] obtain n where
          calls: "snd ?r' = pollingCalls namespace [] n (fst ?r' = Inl (timedOut imageNames namespace))"
          and count: "if fst ?r' = Inl (timedOut imageNames namespace)
             then int n = (if 0 \<le> sint maxWaiting - 2000000000
                           then (sint maxWaiting - 2000000000) div 2000000000 + 1 else 0)
             else 0 \<le> sint maxWaiting - 2000000000
                  \<and> int n < (sint maxWaiting - 2000000000) div 2000000000 + 1"
          unfolding budget by blast
        have "snd ?r = pollingCalls namespace [] (Suc n) (fst ?r = Inl (timedOut imageNames namespace))"
          using r calls by (simp add: pollingCalls_Suc)
        moreover
        have "if fst ?r = Inl (timedOut imageNames namespace)
              then int (Suc n) = (if 0 \<le> sint maxWaiting then sint maxWaiting div 2000000000 + 1 else 0)
              else 0 \<le> sint maxWaiting \<and> int (Suc n) < sint maxWaiting div 2000000000 + 1"
          using r count True by (auto split: if_splits)
        ultimately show ?thesis
          by blast
      qed
    qed
  qed
qed

text \<open>The runs of the second loop, whose body runs once before the budget is tested.\<close>

lemma newestLoop_calls:
  "0 \<le> sint maxWaiting \<Longrightarrow>
   \<exists>n. snd (newestLoop w labelSelector imageSelector namespace maxWaiting i) =
          pollingCalls namespace labelSelector n
            (fst (newestLoop w labelSelector imageSelector namespace maxWaiting i)
               = Inl (noPodFound labelSelector namespace))
      \<and> (if fst (newestLoop w labelSelector imageSelector namespace maxWaiting i)
               = Inl (noPodFound labelSelector namespace)
         then int n = max 1 ((sint maxWaiting + 2000000000 - 1) div 2000000000)
         else int n < max 1 ((sint maxWaiting + 2000000000 - 1) div 2000000000))"
proof (induction w labelSelector imageSelector namespace maxWaiting i rule: newestLoop.induct)
  case (1 w labelSelector imageSelector namespace maxWaiting i)
  let ?r = "newestLoop w labelSelector imageSelector namespace maxWaiting i"
  note budget = sint_budget_step [OF "1.prems"]
  show ?case
  proof (cases "Pods_List w i namespace labelSelector")
    case (Inl err)
    then have "?r = (Inl (ClientError err), returningCalls namespace labelSelector)"
      by (subst newestLoop.simps) simp
    then show ?thesis
      by (intro exI [of _ 0]) (simp add: pollingCalls_def noPodFound_def)
  next
    case (Inr items)
    show ?thesis
    proof (cases "evaluateNewest labelSelector imageSelector namespace (Since w i) items")
      case (Some result)
      with Inr have r: "?r = (result, returningCalls namespace labelSelector)"
        by (subst newestLoop.simps) simp
      from Some have "result \<noteq> Inl (noPodFound labelSelector namespace)"
        by (rule evaluateNewest_result)
      with r show ?thesis
        by (intro exI [of _ 0]) (simp add: pollingCalls_def)
    next
      case None
      show ?thesis
      proof (cases "0 < sint (maxWaiting - waitingInterval * 2)")
        case False
        with Inr None
        have r: "?r = (Inl (noPodFound labelSelector namespace),
                       iterationCalls namespace labelSelector)"
          by (subst newestLoop.simps) simp
        from False budget have "(sint maxWaiting + 2000000000 - 1) div 2000000000 \<le> 1"
          by simp
        with r show ?thesis
          by (intro exI [of _ 1]) (simp add: pollingCalls_def)
      next
        case True
        let ?r' = "newestLoop w labelSelector imageSelector namespace
                     (maxWaiting - waitingInterval * 2) (i + 1)"
        from True Inr None
        have r: "?r = (fst ?r', iterationCalls namespace labelSelector @ snd ?r')"
          by (subst newestLoop.simps) (simp split: prod.splits)
        from True have "0 \<le> sint (maxWaiting - waitingInterval * 2)"
          by simp
        from "1.IH" [OF Inr None True this] obtain n where
          calls: "snd ?r' = pollingCalls namespace labelSelector n
                    (fst ?r' = Inl (noPodFound labelSelector namespace))"
          and count: "if fst ?r' = Inl (noPodFound labelSelector namespace)
             then int n = max 1 ((sint maxWaiting - 2000000000 + 2000000000 - 1) div 2000000000)
             else int n < max 1 ((sint maxWaiting - 2000000000 + 2000000000 - 1) div 2000000000)"
          unfolding budget by blast
        have "snd ?r = pollingCalls namespace labelSelector (Suc n)
                (fst ?r = Inl (noPodFound labelSelector namespace))"
          using r calls by (simp add: pollingCalls_Suc)
        moreover
        have "if fst ?r = Inl (noPodFound labelSelector namespace)
              then int (Suc n) = max 1 ((sint maxWaiting + 2000000000 - 1) div 2000000000)
              else int (Suc n) < max 1 ((sint maxWaiting + 2000000000 - 1) div 2000000000)"
          using r count True budget by (auto split: if_splits)
        ultimately show ?thesis
          by blast
      qed
    qed
  qed
qed

lemma newestLoop_empty:
  "\<forall>j. Pods_List w j namespace labelSelector = Inr [] \<Longrightarrow>
     fst (newestLoop w labelSelector imageSelector namespace maxWaiting i)
       = Inl (noPodFound labelSelector namespace)"
proof (induction w labelSelector imageSelector namespace maxWaiting i rule: newestLoop.induct)
  case (1 w labelSelector imageSelector namespace maxWaiting i)
  have listed: "Pods_List w i namespace labelSelector = Inr []"
    using "1.prems" by simp
  have none: "evaluateNewest labelSelector imageSelector namespace (Since w i) [] = None"
    by (simp add: evaluateNewest_def)
  show ?case
  proof (cases "0 < sint (maxWaiting - waitingInterval * 2)")
    case True
    from "1.IH" [OF listed none True "1.prems"] listed none True show ?thesis
      by (subst newestLoop.simps) (simp add: case_prod_beta)
  next
    case False
    with listed none show ?thesis
      by (subst newestLoop.simps) simp
  qed
qed

lemma newestLoop_couldntFind:
  "fst (newestLoop w labelSelector imageSelector namespace maxWaiting i)
     = Inl (couldntFind labelSelector namespace) \<Longrightarrow>
   \<exists>j items. i \<le> j \<and> Pods_List w j namespace labelSelector = Inr items
      \<and> noneSelected imageSelector items \<and> sint Minute < sint (Since w j)"
proof (induction w labelSelector imageSelector namespace maxWaiting i rule: newestLoop.induct)
  case (1 w labelSelector imageSelector namespace maxWaiting i)
  show ?case
  proof (cases "Pods_List w i namespace labelSelector")
    case (Inl err)
    with "1.prems" show ?thesis
      by (subst (asm) newestLoop.simps) (simp add: couldntFind_def)
  next
    case (Inr items)
    show ?thesis
    proof (cases "evaluateNewest labelSelector imageSelector namespace (Since w i) items")
      case (Some result)
      with Inr "1.prems" have "result = Inl (couldntFind labelSelector namespace)"
        by (subst (asm) newestLoop.simps) simp
      with Some have "items \<noteq> [] \<and> selectLoop imageSelector items None = None
                      \<and> sint Minute < sint (Since w i)"
        by (auto simp: evaluateNewest_def Let_def couldntFind_def selectedCannotStart_def
            split: if_splits option.splits)
      then have "noneSelected imageSelector items \<and> sint Minute < sint (Since w i)"
        by (auto simp: selectLoop_None)
      with Inr show ?thesis by blast
    next
      case None
      show ?thesis
      proof (cases "0 < sint (maxWaiting - waitingInterval * 2)")
        case True
        with Inr None "1.prems"
        have "fst (newestLoop w labelSelector imageSelector namespace
                     (maxWaiting - waitingInterval * 2) (i + 1))
                = Inl (couldntFind labelSelector namespace)"
          by (subst (asm) newestLoop.simps) (simp split: prod.splits)
        with "1.IH" [OF Inr None True]
        obtain j items' where "i + 1 \<le> j" "Pods_List w j namespace labelSelector = Inr items'"
          "noneSelected imageSelector items'" "sint Minute < sint (Since w j)"
          by blast
        then show ?thesis
          by (intro exI [of _ j] exI [of _ items']) simp
      next
        case False
        with Inr None "1.prems" show ?thesis
          by (subst (asm) newestLoop.simps) (simp add: couldntFind_def noPodFound_def)
      qed
    qed
  qed
qed

text \<open>
  A run on which every list is non-empty and holds no pod with an image of the selector:
  the first iteration that finds more than a minute elapsed returns the early error, if
  the budget lasts until then.
\<close>

lemma newestLoop_noMatch:
  assumes "\<forall>j \<le> k. \<exists>items. Pods_List w (i + j) namespace labelSelector = Inr items
                        \<and> noneSelected imageSelector items"
    and "\<forall>j < k. \<not> sint Minute < sint (Since w (i + j))"
    and "sint Minute < sint (Since w (i + k))"
    and "2000000000 * int k < sint maxWaiting \<or> k = 0"
  shows "newestLoop w labelSelector imageSelector namespace maxWaiting i =
           (Inl (couldntFind labelSelector namespace), pollingCalls namespace labelSelector k False)"
  using assms
proof (induction k arbitrary: i maxWaiting)
  case 0
  then obtain items where listed: "Pods_List w i namespace labelSelector = Inr items"
    and none: "noneSelected imageSelector items"
    by auto
  from none have "items \<noteq> []" "selectLoop imageSelector items None = None"
    by (simp_all add: selectLoop_None) (simp add: noneSelected_def)
  with "0.prems"(3)
  have "evaluateNewest labelSelector imageSelector namespace (Since w i) items =
          Some (Inl (couldntFind labelSelector namespace))"
    by (simp add: evaluateNewest_def)
  with listed show ?case
    by (subst newestLoop.simps) (simp add: pollingCalls_def)
next
  case (Suc k)
  from Suc.prems(1) [rule_format, of 0]
  obtain items where listed: "Pods_List w i namespace labelSelector = Inr items"
    and none: "noneSelected imageSelector items"
    by auto
  from none have "items \<noteq> []" "selectLoop imageSelector items None = None"
    by (simp_all add: selectLoop_None) (simp add: noneSelected_def)
  moreover have "\<not> sint Minute < sint (Since w i)"
    using Suc.prems(2) [rule_format, of 0] by simp
  ultimately
  have goes_on: "evaluateNewest labelSelector imageSelector namespace (Since w i) items = None"
    by (simp add: evaluateNewest_def)
  from Suc.prems(4) have budget: "2000000000 * int k + 2000000000 < sint maxWaiting"
    by simp
  then have step: "sint (maxWaiting - waitingInterval * 2) = sint maxWaiting - 2000000000"
    by (intro sint_budget_step) simp
  with budget have remains: "0 < sint (maxWaiting - waitingInterval * 2)"
    by simp
  have "newestLoop w labelSelector imageSelector namespace (maxWaiting - waitingInterval * 2) (i + 1)
          = (Inl (couldntFind labelSelector namespace), pollingCalls namespace labelSelector k False)"
  proof (rule Suc.IH)
    show "\<forall>j \<le> k. \<exists>items. Pods_List w (i + 1 + j) namespace labelSelector = Inr items
                        \<and> noneSelected imageSelector items"
      using Suc.prems(1) by (auto dest: spec [of _ "Suc _"])
    show "\<forall>j < k. \<not> sint Minute < sint (Since w (i + 1 + j))"
      using Suc.prems(2) by (auto dest: spec [of _ "Suc _"])
    show "sint Minute < sint (Since w (i + 1 + k))"
      using Suc.prems(3) by simp
    show "2000000000 * int k < sint (maxWaiting - waitingInterval * 2) \<or> k = 0"
      using budget step by simp
  qed
  with listed goes_on remains show ?case
    by (subst newestLoop.simps) (simp add: pollingCalls_Suc)
qed


lemma sint_waitingInterval: "sint waitingInterval = 1000000000"
  by (simp add: waitingInterval_def Second_def)

text \<open>
  C3, as amended. When every list is non-empty and holds no pod that carries an image of
  the (non-empty) image selector, the first iteration that finds more than a minute
  elapsed since the loop began returns the early error, provided the budget lasts until
  that iteration; the early error differs from the final one. When every list is empty,
  the call returns the final error, however much time has elapsed.
\<close>

theorem no_match_after_a_minute:
  "((\<forall>j \<le> k. \<exists>items.
        Pods_List w j (namespaceUsed client namespace) labelSelector = Inr items
        \<and> noneSelected imageSelector items)
    \<and> (\<forall>j < k. \<not> sint Minute < sint (Since w j))
    \<and> sint Minute < sint (Since w k)
    \<and> (2 * sint waitingInterval * int k < sint maxWaiting \<or> k = 0)
    \<longrightarrow> GetNewestRunningPod client w labelSelector imageSelector namespace maxWaiting =
          (Inl (couldntFind labelSelector (namespaceUsed client namespace)),
           pollingCalls (namespaceUsed client namespace) labelSelector k False))
   \<and> couldntFind labelSelector (namespaceUsed client namespace)
       \<noteq> noPodFound labelSelector (namespaceUsed client namespace)
   \<and> ((\<forall>j. Pods_List w j (namespaceUsed client namespace) labelSelector = Inr [])
    \<longrightarrow> fst (GetNewestRunningPod client w labelSelector imageSelector namespace maxWaiting)
          = Inl (noPodFound labelSelector (namespaceUsed client namespace)))"
proof (intro conjI impI)
  let ?ns = "namespaceUsed client namespace"
  assume run: "(\<forall>j \<le> k. \<exists>items. Pods_List w j ?ns labelSelector = Inr items
                   \<and> noneSelected imageSelector items)
    \<and> (\<forall>j < k. \<not> sint Minute < sint (Since w j))
    \<and> sint Minute < sint (Since w k)
    \<and> (2 * sint waitingInterval * int k < sint maxWaiting \<or> k = 0)"
  have "newestLoop w labelSelector imageSelector ?ns maxWaiting 0 =
          (Inl (couldntFind labelSelector ?ns), pollingCalls ?ns labelSelector k False)"
    using run by (intro newestLoop_noMatch) (simp_all add: sint_waitingInterval)
  then show "GetNewestRunningPod client w labelSelector imageSelector namespace maxWaiting =
               (Inl (couldntFind labelSelector ?ns), pollingCalls ?ns labelSelector k False)"
    by (simp add: GetNewestRunningPod_def)
next
  show "couldntFind labelSelector (namespaceUsed client namespace)
          \<noteq> noPodFound labelSelector (namespaceUsed client namespace)"
    by (simp add: couldntFind_def noPodFound_def)
next
  assume "\<forall>j. Pods_List w j (namespaceUsed client namespace) labelSelector = Inr []"
  then show "fst (GetNewestRunningPod client w labelSelector imageSelector namespace maxWaiting)
               = Inl (noPodFound labelSelector (namespaceUsed client namespace))"
    by (simp add: GetNewestRunningPod_def newestLoop_empty)
qed

theorem no_match_after_a_minute_witness:
  "noneSelected [''app:v2''] [runningPod]
   \<and> \<not> sint Minute < sint (slowClock 2) \<and> sint Minute < sint (slowClock 3)
   \<and> GetNewestRunningPod devClient (cluster slowClock [runningPod]) ''app=web'' [''app:v2'']
        [] (120 * Second)
       = (Inl (Errorf ''Couldn't find a pod with selector app=web in namespace dev''),
          pollingCalls ''dev'' ''app=web'' 3 False)
   \<and> fst (GetNewestRunningPod devClient (cluster slowClock []) ''app=web'' [''app:v2'']
            [] (120 * Second))
       = Inl (Errorf ''No pod with selector app=web in namespace dev found'')"
proof -
  have clock: "\<forall>j < 3. \<not> sint Minute < sint (Since (cluster slowClock [runningPod]) j)"
    by (simp add: eval_nat_numeral All_less_Suc cluster_def slowClock_def Minute_def Second_def)
  have late: "sint Minute < sint (Since (cluster slowClock [runningPod]) 3)"
    by (simp add: cluster_def slowClock_def Minute_def Second_def)
  have none: "noneSelected [''app:v2''] [runningPod]"
    by (simp add: noneSelected_def hasImage_def imageMatches_def runningPod_def snapshot_def)
  then have listed: "\<forall>j \<le> 3. \<exists>items.
      Pods_List (cluster slowClock [runningPod]) j (namespaceUsed devClient []) ''app=web''
        = Inr items \<and> noneSelected [''app:v2''] items"
    by (simp add: cluster_def)
  have budget: "2 * sint waitingInterval * int 3 < sint (120 * Second) \<or> (3::nat) = 0"
    by (simp add: sint_waitingInterval Second_def)
  have empty: "\<forall>j. Pods_List (cluster slowClock []) j (namespaceUsed devClient []) ''app=web''
                 = Inr []"
    by (simp add: cluster_def)
  from no_match_after_a_minute
      [of 3 "cluster slowClock [runningPod]" devClient "[]" "''app=web''" "[''app:v2'']"
          "120 * Second"]
    no_match_after_a_minute
      [of 0 "cluster slowClock []" devClient "[]" "''app=web''" "[''app:v2'']" "120 * Second"]
    listed clock late budget empty none
  show ?thesis
    by (simp add: namespaceUsed_def devClient_def couldntFind_def noPodFound_def cluster_def)
qed

text \<open>
  C3 as stated fails: with a selector that matches no pod, every list is empty, the
  test of the elapsed time is never reached, and after more than 70 seconds of polling
  the call ends with the final error when the budget of 80 seconds is used up.
\<close>

theorem no_match_after_a_minute_counterexample:
  "fst (GetNewestRunningPod devClient (cluster steadyClock []) ''app=web'' [] [] (80 * Second))
     = Inl (Errorf ''No pod with selector app=web in namespace dev found'')
   \<and> fst (GetNewestRunningPod devClient (cluster steadyClock []) ''app=web'' [] [] (80 * Second))
     \<noteq> Inl (couldntFind ''app=web'' ''dev'')
   \<and> listCalls
       (snd (GetNewestRunningPod devClient (cluster steadyClock []) ''app=web'' [] []
               (80 * Second))) = 40
   \<and> sint (70 * Second) < sint (Since (cluster steadyClock []) 35)"
proof -
  let ?r = "newestLoop (cluster steadyClock []) ''app=web'' [] ''dev'' (80 * Second) 0"
  have result: "fst ?r = Inl (noPodFound ''app=web'' ''dev'')"
    by (rule newestLoop_empty) (simp add: cluster_def)
  have "0 \<le> sint (80 * Second)"
    by (simp add: Second_def)
  from newestLoop_calls [OF this, of "cluster steadyClock []" "''app=web''" "[]" "''dev''" 0]
  obtain n where "snd ?r = pollingCalls ''dev'' ''app=web'' n True"
    and "int n = max 1 ((sint (80 * Second) + 2000000000 - 1) div 2000000000)"
    unfolding result by auto
  then have "listCalls (snd ?r) = 40"
    by (simp add: listCalls_pollingCalls Second_def)
  moreover have "sint (70 * Second) < sint (Since (cluster steadyClock []) 35)"
    by (simp add: cluster_def steadyClock_def Second_def)
  ultimately show ?thesis
    using result
    by (simp add: GetNewestRunningPod_def namespaceUsed_def devClient_def noPodFound_def
        couldntFind_def)
qed

text \<open>
  C4. When every list is empty, the call returns the final error and never the early
  one, after as many full iterations as the budget allows. The early error is returned
  only after some list was non-empty and held no pod with an image of the (then
  non-empty) image selector, more than a minute after the loop began.
\<close>

theorem early_error_needs_listed_pods:
  "((\<forall>j. Pods_List w j (namespaceUsed client namespace) labelSelector = Inr []) \<longrightarrow>
      fst (GetNewestRunningPod client w labelSelector imageSelector namespace maxWaiting)
        = Inl (noPodFound labelSelector (namespaceUsed client namespace))
      \<and> fst (GetNewestRunningPod client w labelSelector imageSelector namespace maxWaiting)
        \<noteq> Inl (couldntFind labelSelector (namespaceUsed client namespace))
      \<and> (0 \<le> sint maxWaiting \<longrightarrow>
           snd (GetNewestRunningPod client w labelSelector imageSelector namespace maxWaiting)
             = pollingCalls (namespaceUsed client namespace) labelSelector
                 (nat (max 1 ((sint maxWaiting + 2 * sint waitingInterval - 1)
                              div (2 * sint waitingInterval)))) True))
   \<and> (fst (GetNewestRunningPod client w labelSelector imageSelector namespace maxWaiting)
        = Inl (couldntFind labelSelector (namespaceUsed client namespace)) \<longrightarrow>
      (\<exists>j items. Pods_List w j (namespaceUsed client namespace) labelSelector = Inr items
         \<and> items \<noteq> [] \<and> imageSelector \<noteq> []
         \<and> (\<forall>pod \<in> set items. \<not> hasImage imageSelector pod)
         \<and> sint Minute < sint (Since w j)))"
proof (intro conjI impI)
  let ?ns = "namespaceUsed client namespace"
  let ?r = "newestLoop w labelSelector imageSelector ?ns maxWaiting 0"
  assume empty: "\<forall>j. Pods_List w j ?ns labelSelector = Inr []"
  then have result: "fst ?r = Inl (noPodFound labelSelector ?ns)"
    by (rule newestLoop_empty)
  then show "fst (GetNewestRunningPod client w labelSelector imageSelector namespace maxWaiting)
               = Inl (noPodFound labelSelector ?ns)"
    by (simp add: GetNewestRunningPod_def)
  from result
  show "fst (GetNewestRunningPod client w labelSelector imageSelector namespace maxWaiting)
          \<noteq> Inl (couldntFind labelSelector ?ns)"
    by (simp add: GetNewestRunningPod_def noPodFound_def couldntFind_def)
  assume "0 \<le> sint maxWaiting"
  from newestLoop_calls [OF this, of w labelSelector imageSelector ?ns 0]
  obtain n where "snd ?r = pollingCalls ?ns labelSelector n True"
    and "int n = max 1 ((sint maxWaiting + 2000000000 - 1) div 2000000000)"
    unfolding result by auto
  moreover from this(2) have "n = nat (max 1 ((sint maxWaiting + 2000000000 - 1) div 2000000000))"
    by (metis nat_int)
  ultimately
  show "snd (GetNewestRunningPod client w labelSelector imageSelector namespace maxWaiting)
               = pollingCalls ?ns labelSelector
                   (nat (max 1 ((sint maxWaiting + 2 * sint waitingInterval - 1)
                                div (2 * sint waitingInterval)))) True"
    by (simp add: GetNewestRunningPod_def sint_waitingInterval)
next
  let ?ns = "namespaceUsed client namespace"
  assume "fst (GetNewestRunningPod client w labelSelector imageSelector namespace maxWaiting)
            = Inl (couldntFind labelSelector ?ns)"
  then have "fst (newestLoop w labelSelector imageSelector ?ns maxWaiting 0)
               = Inl (couldntFind labelSelector ?ns)"
    by (simp add: GetNewestRunningPod_def)
  then obtain j items where "Pods_List w j ?ns labelSelector = Inr items"
    "noneSelected imageSelector items" "sint Minute < sint (Since w j)"
    using newestLoop_couldntFind by blast
  then show "\<exists>j items. Pods_List w j ?ns labelSelector = Inr items
         \<and> items \<noteq> [] \<and> imageSelector \<noteq> []
         \<and> (\<forall>pod \<in> set items. \<not> hasImage imageSelector pod)
         \<and> sint Minute < sint (Since w j)"
    by (auto simp: noneSelected_def list_ex_iff)
qed

theorem early_error_needs_listed_pods_witness:
  "Pods_List (cluster steadyClock []) 0 ''dev'' ''app=web'' = Inr []
   \<and> 0 \<le> sint (9 * Second)
   \<and> GetNewestRunningPod devClient (cluster steadyClock []) ''app=web'' [''app:v1''] []
        (9 * Second)
       = (Inl (Errorf ''No pod with selector app=web in namespace dev found''),
          pollingCalls ''dev'' ''app=web'' 5 True)
   \<and> fst (GetNewestRunningPod devClient (cluster slowClock [runningPod]) ''app=web''
            [''app:v2''] [] (120 * Second))
       = Inl (couldntFind ''app=web'' ''dev'')
   \<and> Pods_List (cluster slowClock [runningPod]) 3 ''dev'' ''app=web'' = Inr [runningPod]
   \<and> \<not> hasImage [''app:v2''] runningPod"
proof -
  have early: "newestLoop (cluster slowClock [runningPod]) ''app=web'' [''app:v2''] ''dev''
                 (120 * Second) 0
               = (Inl (couldntFind ''app=web'' ''dev''), pollingCalls ''dev'' ''app=web'' 3 False)"
    by (rule newestLoop_noMatch)
      (simp_all add: eval_nat_numeral All_less_Suc cluster_def slowClock_def Minute_def
        Second_def noneSelected_def hasImage_def imageMatches_def runningPod_def snapshot_def)
  have other: "\<not> hasImage [''app:v2''] runningPod"
    by (simp add: hasImage_def imageMatches_def runningPod_def snapshot_def)
  from early other
    early_error_needs_listed_pods
      [of "cluster steadyClock []" devClient "[]" "''app=web''" "[''app:v1'']" "9 * Second"]
    early_error_needs_listed_pods
      [of "cluster slowClock [runningPod]" devClient "[]" "''app=web''" "[''app:v2'']"
          "120 * Second"]
  show ?thesis
    by (simp add: GetNewestRunningPod_def namespaceUsed_def devClient_def cluster_def
        noPodFound_def sint_waitingInterval Second_def prod_eq_iff)
qed

text \<open>
  C5. With a budget that is not negative, both loops sleep for the interval before each
  list call and again after it unless the iteration returns, and the budget shrinks by
  twice the interval in each iteration: the first loop makes at most
  \<open>maxWaiting div (2 * interval) + 1\<close> list calls, its result is the time-out error
  exactly when that many iterations went by without a return, and the message of the
  error names the images and the namespace used; the second loop ends with its final
  error after \<open>max 1 (maxWaiting / (2 * interval))\<close> iterations, rounded up.
\<close>

theorem polling_budget:
  assumes "0 \<le> sint maxWaiting"
  shows "(\<exists>n. snd (GetRunningPodsWithImage client w imageNames namespace maxWaiting)
               = pollingCalls (namespaceUsed client namespace) [] n
                   (fst (GetRunningPodsWithImage client w imageNames namespace maxWaiting)
                      = Inl (timedOut imageNames (namespaceUsed client namespace)))
            \<and> (if fst (GetRunningPodsWithImage client w imageNames namespace maxWaiting)
                    = Inl (timedOut imageNames (namespaceUsed client namespace))
               then int n = sint maxWaiting div (2 * sint waitingInterval) + 1
               else int n < sint maxWaiting div (2 * sint waitingInterval) + 1))
       \<and> int (listCalls (snd (GetRunningPodsWithImage client w imageNames namespace maxWaiting)))
           \<le> sint maxWaiting div (2 * sint waitingInterval) + 1
       \<and> timedOut imageNames (namespaceUsed client namespace)
           = Errorf (''Waiting for pods with image names '' @ [CHR 0x27] @ Join imageNames '',''
                     @ [CHR 0x27] @ '' in namespace '' @ namespaceUsed client namespace
                     @ '' timed out'')
       \<and> (\<exists>n. snd (GetNewestRunningPod client w labelSelector imageSelector namespace maxWaiting)
               = pollingCalls (namespaceUsed client namespace) labelSelector n
                   (fst (GetNewestRunningPod client w labelSelector imageSelector namespace
                           maxWaiting)
                      = Inl (noPodFound labelSelector (namespaceUsed client namespace)))
            \<and> (if fst (GetNewestRunningPod client w labelSelector imageSelector namespace
                          maxWaiting)
                    = Inl (noPodFound labelSelector (namespaceUsed client namespace))
               then int n = max 1 ((sint maxWaiting + 2 * sint waitingInterval - 1)
                                   div (2 * sint waitingInterval))
               else int n < max 1 ((sint maxWaiting + 2 * sint waitingInterval - 1)
                                   div (2 * sint waitingInterval))))"
proof -
  let ?ns = "namespaceUsed client namespace"
  let ?image = "imageLoop w imageNames ?ns maxWaiting (60 * Second) 0"
  have twice: "2 * sint waitingInterval = 2000000000"
    by (simp add: sint_waitingInterval)
  from imageLoop_calls [of w imageNames ?ns maxWaiting "60 * Second" 0] assms
  obtain n where calls: "snd ?image = pollingCalls ?ns [] n (fst ?image = Inl (timedOut imageNames ?ns))"
    and count: "if fst ?image = Inl (timedOut imageNames ?ns)
                then int n = sint maxWaiting div 2000000000 + 1
                else int n < sint maxWaiting div 2000000000 + 1"
    by (auto split: if_splits)
  then have runs: "\<exists>n. snd ?image = pollingCalls ?ns [] n (fst ?image = Inl (timedOut imageNames ?ns))
                    \<and> (if fst ?image = Inl (timedOut imageNames ?ns)
                       then int n = sint maxWaiting div 2000000000 + 1
                       else int n < sint maxWaiting div 2000000000 + 1)"
    by blast
  have bound: "int (listCalls (snd ?image)) \<le> sint maxWaiting div 2000000000 + 1"
    using count unfolding calls listCalls_pollingCalls by (simp split: if_splits)
  have message: "timedOut imageNames ?ns
           = Errorf (''Waiting for pods with image names '' @ [CHR 0x27] @ Join imageNames '',''
                     @ [CHR 0x27] @ '' in namespace '' @ ?ns @ '' timed out'')"
    by (simp add: timedOut_def)
  note newest = newestLoop_calls [OF assms, of w labelSelector imageSelector ?ns 0]
  show ?thesis
    unfolding GetRunningPodsWithImage_def GetNewestRunningPod_def Let_def twice
    by (intro conjI runs bound message newest)
qed

theorem polling_budget_witness:
  "0 \<le> sint (5 * Second)
   \<and> GetRunningPodsWithImage devClient (cluster steadyClock [pendingButRunning])
        [''app:v1'', ''app:v2''] [] (5 * Second)
       = (Inl (Errorf (''Waiting for pods with image names '' @ [CHR 0x27] @ ''app:v1,app:v2''
                       @ [CHR 0x27] @ '' in namespace dev timed out'')),
          pollingCalls ''dev'' [] 3 True)
   \<and> int (listCalls (snd (GetRunningPodsWithImage devClient
                            (cluster steadyClock [pendingButRunning])
                            [''app:v1'', ''app:v2''] [] (5 * Second)))) \<le> 3
   \<and> GetRunningPodsWithImage devClient (cluster steadyClock [runningPod])
        [''app:v1'', ''app:v2''] [] (5 * Second)
       = (Inr [runningPod], pollingCalls ''dev'' [] 0 False)"
proof -
  have budget: "0 \<le> sint (5 * Second)"
    by (simp add: Second_def)
  have pending: "GetPodStatus pendingButRunning = ''Pending''"
    by (simp add: pendingButRunning_def snapshot_def stateRunning_def GetPodStatus_def
        containerStep_def elseTerminated_def)
  have running: "GetPodStatus runningPod = ''Running''"
    by (simp add: runningPod_def snapshot_def stateRunning_def GetPodStatus_def
        containerStep_def elseTerminated_def)
  have images: "hasImage [''app:v1'', ''app:v2''] pendingButRunning"
    "hasImage [''app:v1'', ''app:v2''] runningPod"
    by (simp_all add: hasImage_def imageMatches_def pendingButRunning_def runningPod_def
        snapshot_def)
  have waits: "evaluatePods [''app:v1'', ''app:v2''] minWait [pendingButRunning] = None"
    for minWait
    by (simp add: evaluatePods_def pending images CriticalStatus_def)
  have returns: "evaluatePods [''app:v1'', ''app:v2''] minWait [runningPod] = Some (Inr [runningPod])"
    for minWait
    by (simp add: evaluatePods_def running images CriticalStatus_def)
  have timeout: "imageLoop (cluster steadyClock [pendingButRunning]) [''app:v1'', ''app:v2'']
                   ''dev'' (5 * Second) (60 * Second) 0
                 = (Inl (timedOut [''app:v1'', ''app:v2''] ''dev''), pollingCalls ''dev'' [] 3 True)"
    by (simp add: imageLoop.simps cluster_def waits Second_def waitingInterval_def
        pollingCalls_def eval_nat_numeral)
  have found: "imageLoop (cluster steadyClock [runningPod]) [''app:v1'', ''app:v2'']
                 ''dev'' (5 * Second) (60 * Second) 0
               = (Inr [runningPod], pollingCalls ''dev'' [] 0 False)"
    by (simp add: imageLoop.simps cluster_def returns Second_def pollingCalls_def)
  from polling_budget [OF budget, of devClient "cluster steadyClock [pendingButRunning]"
      "[''app:v1'', ''app:v2'']" "[]"] budget timeout found
  show ?thesis
    by (simp add: GetRunningPodsWithImage_def namespaceUsed_def devClient_def timedOut_def
        listCalls_pollingCalls)
qed

end
